theory Spec2Isabelle
  imports Complex_Main
begin

section \<open>Numbers\<close>

text \<open>
  Python floats are modelled as exact reals: rounding is not part of the model, every
  comparison and product below is the mathematical one. Integer quantities of the
  source (health, damage, rectangle coordinates) are \<open>int\<close>.
\<close>

section \<open>rigidbody.py\<close>

subsection \<open>Rectangles of the tile map\<close>

text \<open>
  A \<open>pygame.Rect\<close> is given by integer \<open>left\<close>, \<open>top\<close>, \<open>width\<close>, \<open>height\<close>;
  \<open>right\<close> and \<open>bottom\<close> are derived attributes.
\<close>

record Rect =
  rect_left :: int
  rect_top :: int
  rect_width :: int
  rect_height :: int

definition rect_right :: "Rect \<Rightarrow> int" where
  "rect_right r = rect_left r + rect_width r"

definition rect_bottom :: "Rect \<Rightarrow> int" where
  "rect_bottom r = rect_top r + rect_height r"

subsection \<open>CircleCollider\<close>

record CircleCollider =
  center_x :: real
  center_y :: real
  radius :: real

definition update_position :: "real \<Rightarrow> real \<Rightarrow> CircleCollider \<Rightarrow> CircleCollider" where
  "update_position x y c = c\<lparr>center_x := x, center_y := y\<rparr>"

definition get_center :: "CircleCollider \<Rightarrow> real \<times> real" where
  "get_center c = (center_x c, center_y c)"

text \<open>The closest point of a rectangle to a point, as both rectangle tests compute it.\<close>

definition closest_x :: "Rect \<Rightarrow> real \<Rightarrow> real" where
  "closest_x r cx = max (of_int (rect_left r)) (min cx (of_int (rect_right r)))"

definition closest_y :: "Rect \<Rightarrow> real \<Rightarrow> real" where
  "closest_y r cy = max (of_int (rect_top r)) (min cy (of_int (rect_bottom r)))"

definition collides_with_rect :: "CircleCollider \<Rightarrow> Rect \<Rightarrow> bool" where
  "collides_with_rect c r =
     (let dx = center_x c - closest_x r (center_x c);
          dy = center_y c - closest_y r (center_y c);
          distance = sqrt (dx * dx + dy * dy)
      in distance \<le> radius c)"

subsection \<open>RigidBody\<close>

record RigidBody =
  collider :: CircleCollider
  mass :: real
  velocity_x :: real
  velocity_y :: real
  acceleration_x :: real
  acceleration_y :: real
  gravity :: real
  friction :: real
  air_resistance :: real
  bounce :: real
  is_grounded :: bool
  ground_y :: "real option"
  can_collide :: bool

text \<open>The constructor \<open>RigidBody(center_x, center_y, radius, mass)\<close> with its defaults.\<close>

definition RigidBody_init :: "real \<Rightarrow> real \<Rightarrow> real \<Rightarrow> real \<Rightarrow> RigidBody" where
  "RigidBody_init cx cy r m =
     \<lparr>collider = \<lparr>center_x = cx, center_y = cy, radius = r\<rparr>, mass = m,
      velocity_x = 0, velocity_y = 0, acceleration_x = 0, acceleration_y = 0,
      gravity = 8 / 10, friction = 9 / 10, air_resistance = 99 / 100, bounce = 1 / 10,
      is_grounded = False, ground_y = None, can_collide = True\<rparr>"

definition set_position :: "real \<Rightarrow> real \<Rightarrow> RigidBody \<Rightarrow> RigidBody" where
  "set_position x y rb = rb\<lparr>collider := update_position x y (collider rb)\<rparr>"

definition get_position :: "RigidBody \<Rightarrow> real \<times> real" where
  "get_position rb = get_center (collider rb)"

text \<open>\<open>update_physics(dt)\<close>: one semi-implicit Euler step.\<close>

definition update_physics :: "real \<Rightarrow> RigidBody \<Rightarrow> RigidBody" where
  "update_physics dt rb =
     (let ay = (if \<not> is_grounded rb then acceleration_y rb + gravity rb
                else acceleration_y rb);
          vx0 = velocity_x rb + acceleration_x rb * dt;
          vy0 = velocity_y rb + ay * dt;
          vx = (if \<not> is_grounded rb then vx0 * air_resistance rb else vx0 * friction rb);
          vy = (if \<not> is_grounded rb then vy0 * air_resistance rb else vy0);
          new_x = center_x (collider rb) + vx * dt;
          new_y = center_y (collider rb) + vy * dt
      in (set_position new_x new_y (rb\<lparr>velocity_x := vx, velocity_y := vy\<rparr>))
           \<lparr>acceleration_x := 0, acceleration_y := 0\<rparr>)"

text \<open>
  \<open>check_ground_collision(ground_y)\<close>. The argument is \<open>None\<close> when there is no
  ground beneath. When the bottom edge has reached the ground but the body moves
  upward, the source changes nothing at all.
\<close>

definition check_ground_collision :: "real option \<Rightarrow> RigidBody \<Rightarrow> RigidBody" where
  "check_ground_collision g rb =
     (let bottom_y = center_y (collider rb) + radius (collider rb)
      in case g of
           None \<Rightarrow> rb\<lparr>is_grounded := False, ground_y := None\<rparr>
         | Some gy \<Rightarrow>
             if bottom_y \<ge> gy then
               (if velocity_y rb \<ge> 0 then
                  (let rb1 = rb\<lparr>is_grounded := True, ground_y := Some gy\<rparr>;
                       new_center_y = gy - radius (collider rb1);
                       rb2 = set_position (center_x (collider rb1)) new_center_y rb1
                   in rb2\<lparr>velocity_y := 0\<rparr>)
                else rb)
             else rb\<lparr>is_grounded := False, ground_y := Some gy\<rparr>)"

text \<open>\<open>resolve_tile_collision(tile_rect)\<close>: push the circle out of one rectangle.\<close>

definition resolve_tile_collision :: "Rect \<Rightarrow> RigidBody \<Rightarrow> RigidBody" where
  "resolve_tile_collision tile rb =
     (let cx = fst (get_center (collider rb));
          cy = snd (get_center (collider rb));
          r = radius (collider rb);
          dx = cx - closest_x tile cx;
          dy = cy - closest_y tile cy;
          distance = sqrt (dx * dx + dy * dy)
      in if distance < r \<and> distance > 0 then
           (let nx = dx / distance;
                ny = dy / distance;
                penetration = r - distance;
                new_x = cx + nx * penetration;
                new_y = cy + ny * penetration;
                rb1 = set_position new_x new_y rb;
                dot_product = velocity_x rb1 * nx + velocity_y rb1 * ny;
                rb2 = rb1\<lparr>velocity_x := velocity_x rb1 - 2 * dot_product * nx * bounce rb1\<rparr>;
                rb3 = rb2\<lparr>velocity_y := velocity_y rb2 - 2 * dot_product * ny * bounce rb2\<rparr>
            in if ny < - (7 / 10) then
                 (let rb4 = rb3\<lparr>is_grounded := True,
                                 ground_y := Some (of_int (rect_top tile))\<rparr>
                  in if velocity_y rb4 > 0 then rb4\<lparr>velocity_y := 0\<rparr> else rb4)
               else rb3)
         else rb)"

text \<open>\<open>check_tile_collision(tile_rects)\<close>: the loop over the tiles, in order.\<close>

fun check_tiles :: "Rect list \<Rightarrow> RigidBody \<Rightarrow> RigidBody" where
  "check_tiles [] rb = rb"
| "check_tiles (t # ts) rb =
     check_tiles ts (if collides_with_rect (collider rb) t
                     then resolve_tile_collision t rb else rb)"

definition check_tile_collision :: "Rect list \<Rightarrow> RigidBody \<Rightarrow> RigidBody" where
  "check_tile_collision tile_rects rb =
     (if \<not> can_collide rb then rb else check_tiles tile_rects rb)"

section \<open>Shared helpers\<close>

text \<open>
  Python's \<open>x % n\<close> on a float \<open>x\<close> and a positive length \<open>n\<close>, and \<open>int(x)\<close>,
  which truncates toward zero. A raised exception (\<open>ZeroDivisionError\<close> from a modulo
  or a division by zero) is the value \<open>None\<close> of the functions below that can raise.
\<close>

definition fmod :: "real \<Rightarrow> nat \<Rightarrow> real" where
  "fmod x n = x - real n * of_int \<lfloor>x / real n\<rfloor>"

definition py_int :: "real \<Rightarrow> int" where
  "py_int x = (if x \<ge> 0 then \<lfloor>x\<rfloor> else \<lceil>x\<rceil>)"

text \<open>The sprite rectangle: \<open>centerx\<close>, \<open>centery\<close> as pygame derives and assigns them.\<close>

definition rect_centerx :: "Rect \<Rightarrow> int" where
  "rect_centerx r = rect_left r + rect_width r div 2"

definition rect_centery :: "Rect \<Rightarrow> int" where
  "rect_centery r = rect_top r + rect_height r div 2"

definition set_centerx :: "int \<Rightarrow> Rect \<Rightarrow> Rect" where
  "set_centerx v r = r\<lparr>rect_left := v - rect_width r div 2\<rparr>"

definition set_bottom :: "int \<Rightarrow> Rect \<Rightarrow> Rect" where
  "set_bottom b r = r\<lparr>rect_top := b - rect_height r\<rparr>"

definition set_centery :: "int \<Rightarrow> Rect \<Rightarrow> Rect" where
  "set_centery v r = r\<lparr>rect_top := v - rect_height r div 2\<rparr>"

subsection \<open>ui_system.py: the floating damage texts\<close>

text \<open>
  \<open>UISystem.add_damage_text(x, y, damage, color)\<close> appends a text; \<open>damage\<close> is a
  number or a word such as \<open>"Blocked"\<close>. Callers pass the UI system or \<open>None\<close>.
\<close>

datatype text_value = Num int | Str string

record DamageText =
  dt_x :: int
  dt_y :: int
  dt_damage :: text_value
  dt_color :: "int \<times> int \<times> int"

type_synonym UISystem = "DamageText list"

definition add_damage_text ::
    "int \<Rightarrow> int \<Rightarrow> text_value \<Rightarrow> int \<times> int \<times> int \<Rightarrow> UISystem option \<Rightarrow> UISystem option" where
  "add_damage_text x y d c ui =
     (case ui of None \<Rightarrow> None
      | Some texts \<Rightarrow> Some (texts @ [\<lparr>dt_x = x, dt_y = y, dt_damage = d, dt_color = c\<rparr>]))"

text \<open>
  What a Python call hands back: every \<open>take_damage\<close> of the source ends in a bare
  \<open>return\<close> or falls off the end of the function, which is the value \<open>None\<close>.
  \<open>outcome\<close> lists the four results the interface description names.
\<close>

datatype outcome = applied | blocked | missed | countered

datatype py_return = PyNone | PyOutcome outcome

section \<open>player.py\<close>

text \<open>
  The player's \<open>state\<close> is a word (\<open>'idle'\<close>, \<open>'block'\<close>, ...) or the number of
  the running attack (1, 2, 3). Animation sequences enter only through their lengths.
  Fields are prefixed with the class they belong to, since the three entity classes
  share most attribute names. Sound effects and debug prints have no effect on the
  state and are left out.
\<close>

datatype pstate = SStr string | SInt int

definition is_int_state :: "pstate \<Rightarrow> bool" where
  "is_int_state s = (case s of SInt _ \<Rightarrow> True | SStr _ \<Rightarrow> False)"

record Player =
  player_state :: pstate
  player_frame :: real
  player_dir :: int
  player_flip :: bool
  player_rect :: Rect
  player_dashing :: bool
  player_is_dead :: bool
  player_blocking :: bool
  player_block_animation_state :: string
  player_block_animation_speed :: real
  player_countering :: bool
  player_counter_success :: bool
  player_counter_attacking :: bool
  player_counter_ready :: bool
  player_counter_damage_dealt :: bool
  player_facing :: int
  player_atk_covered :: real
  player_attack_point :: "int \<times> int"
  player_attack_radius :: int
  player_last_attack_time :: int
  player_attack_cooldown :: int
  player_target :: "nat option"
  player_all_enemies :: "nat list option"
  player_max_health :: int
  player_current_health :: int
  player_rigid_body :: RigidBody
  player_world_x :: int
  player_knockback_end_time :: "int option"
  player_auto_unblock_time :: "real option"
  player_block_len :: nat


definition reset_counter_state :: "Player \<Rightarrow> Player" where
  "reset_counter_state p =
     p\<lparr>player_countering := False, player_counter_success := False,
       player_counter_attacking := False, player_counter_ready := False,
       player_counter_damage_dealt := False,
       player_state := SStr ''idle'', player_frame := 0\<rparr>"

text \<open>
  \<open>Player.take_damage(damage, ui_system)\<close>. The result is the returned value together
  with the player and the UI system as the call leaves them.
\<close>

definition player_take_damage ::
    "int \<Rightarrow> UISystem option \<Rightarrow> Player \<Rightarrow> py_return \<times> Player \<times> UISystem option" where
  "player_take_damage damage ui p =
     (if player_is_dead p \<or> player_state p \<in> {SStr ''hurt'', SStr ''death''} then (PyNone, p, ui)
      else if player_state p = SStr ''skill'' then
        (PyNone, p, add_damage_text (rect_centerx (player_rect p)) (rect_centery (player_rect p) - 150)
                      (Str ''Miss'') (255, 255, 0) ui)
      else if player_blocking p then
        (PyNone, p, add_damage_text (rect_centerx (player_rect p)) (rect_centery (player_rect p) - 150)
                      (Str ''Blocked'') (60, 80, 120) ui)
      else
        (let p1 = p\<lparr>player_current_health := player_current_health p - damage\<rparr>;
             ui1 = add_damage_text (rect_centerx (player_rect p1)) (rect_centery (player_rect p1) - 150)
                      (Num damage) (255, 50, 50) ui
         in if player_current_health p1 \<le> 0 then
              (PyNone, p1\<lparr>player_current_health := 0, player_is_dead := True,
                          player_state := SStr ''death'', player_frame := 0\<rparr>, ui1)
            else
              (PyNone, (reset_counter_state p1)\<lparr>player_blocking := False,
                          player_block_animation_state := ''none'', player_dashing := False,
                          player_state := SStr ''hurt'', player_frame := 0\<rparr>, ui1)))"

section \<open>enemy1.py\<close>

text \<open>
  The mook. \<open>state\<close> is one of the words \<open>'idle'\<close>, \<open>'walk'\<close>, \<open>'approach'\<close>,
  \<open>'attack'\<close>, \<open>'recover'\<close>, \<open>'hurt'\<close>, \<open>'stun'\<close>, \<open>'die'\<close>. All frames are scaled
  to one size, so re-anchoring the sprite rectangle in \<open>animate\<close> leaves it as it is.
  \<open>enemy_killed\<close> records \<open>self.kill()\<close>, the removal from the sprite groups.
\<close>

record Enemy =
  enemy_idle_len :: nat
  enemy_walk_len :: nat
  enemy_attack_len :: nat
  enemy_hurt_len :: nat
  enemy_die_len :: nat
  enemy_stun_frames_len :: nat
  enemy_state :: string
  enemy_frame :: real
  enemy_max_health :: int
  enemy_current_health :: int
  enemy_dir :: int
  enemy_flip :: bool
  enemy_rect :: Rect
  enemy_next_idle :: real
  enemy_patrol_dist :: int
  enemy_patrol_tgt :: int
  enemy_stun_timer :: real
  enemy_recover_end :: real
  enemy_attack_damage :: int
  enemy_attack_point :: "int \<times> int"
  enemy_attack_radius :: int
  enemy_damage_dealt :: bool
  enemy_damage_frame :: real
  enemy_stunned :: bool
  enemy_stun_end_time :: real
  enemy_rigid_body :: RigidBody
  enemy_ground_y :: "real option"
  enemy_killed :: bool

definition WALK_SPEED_e :: int where "WALK_SPEED_e = 2"
definition WALK_DIST :: int where "WALK_DIST = 100"
definition DETECT_RANGE_e :: real where "DETECT_RANGE_e = 500"
definition ATTACK_STOP_DIST_e :: real where "ATTACK_STOP_DIST_e = 130"

text \<open>
  What one call of \<open>update\<close> reads from outside: the clock (\<open>time.time()\<close>) and the
  random draws (\<open>random.uniform\<close> for the recovery and idle pauses, \<open>random.choice\<close>
  for the patrol direction).
\<close>

record EnemyTick =
  tick_now :: real
  tick_recover_pause :: real
  tick_idle_pause :: real
  tick_patrol_dir :: int

definition enemy_update_attack_point :: "Enemy \<Rightarrow> Enemy" where
  "enemy_update_attack_point e =
     (if enemy_state e = ''attack'' then
        (let offset_x = (if enemy_dir e = 1 then 120 else - 120); offset_y = - 10
         in e\<lparr>enemy_attack_point := (rect_centerx (enemy_rect e) + offset_x,
                                       rect_centery (enemy_rect e) + offset_y)\<rparr>)
      else e\<lparr>enemy_attack_point := (rect_centerx (enemy_rect e), rect_centery (enemy_rect e))\<rparr>)"

text \<open>
  \<open>attack_player(ui_system)\<close>: the target takes the damage when its centre lies within
  the attack radius of the attack point. The enemy itself is not changed.
\<close>

definition enemy_attack_player ::
    "Enemy \<Rightarrow> Player option \<times> UISystem option \<Rightarrow> Player option \<times> UISystem option" where
  "enemy_attack_player e w =
     (case fst w of
        None \<Rightarrow> w
      | Some p \<Rightarrow>
          (let px = rect_centerx (player_rect p); py = rect_centery (player_rect p);
               distance = sqrt (of_int ((fst (enemy_attack_point e) - px)\<^sup>2
                                      + (snd (enemy_attack_point e) - py)\<^sup>2))
           in if distance \<le> of_int (enemy_attack_radius e) then
                (let res = player_take_damage (enemy_attack_damage e) (snd w) p
                 in (Some (fst (snd res)), snd (snd res)))
              else w))"

text \<open>\<open>Enemy.take_damage(damage, ui_system)\<close>.\<close>

definition enemy_take_damage ::
    "int \<Rightarrow> UISystem option \<Rightarrow> Enemy \<Rightarrow> py_return \<times> Enemy \<times> UISystem option" where
  "enemy_take_damage damage ui e =
     (if enemy_state e \<notin> {''hurt'', ''die'', ''stun'', ''stun''} then
        (let e1 = e\<lparr>enemy_current_health := enemy_current_health e - damage\<rparr>;
             ui1 = add_damage_text (rect_centerx (enemy_rect e1)) (rect_centery (enemy_rect e1) - 150)
                     (Num damage) (255, 255, 50) ui
         in if enemy_current_health e1 \<le> 0
            then (PyNone, e1\<lparr>enemy_state := ''die'', enemy_frame := 0\<rparr>, ui1)
            else (PyNone, e1\<lparr>enemy_state := ''hurt'', enemy_frame := 0\<rparr>, ui1))
      else (PyNone, e, ui))"


text \<open>
  \<open>animate(seq, speed)\<close>: the frame cursor advances and wraps around the sequence.
  An empty sequence raises \<open>ZeroDivisionError\<close>.
\<close>

definition enemy_animate :: "nat \<Rightarrow> real \<Rightarrow> Enemy \<Rightarrow> Enemy option" where
  "enemy_animate n speed e =
     (if n = 0 then None else Some (e\<lparr>enemy_frame := fmod (enemy_frame e + speed) n\<rparr>))"

text \<open>The first part of \<open>update\<close>: physics, ground, sprite position, attack point.\<close>

definition enemy_update_physics :: "Enemy \<Rightarrow> Enemy" where
  "enemy_update_physics e =
     (let rb1 = update_physics 1 (enemy_rigid_body e);
          rb2 = (case enemy_ground_y e of
                   Some g \<Rightarrow> check_ground_collision (Some g) rb1
                 | None \<Rightarrow> rb1\<lparr>is_grounded := False\<rparr>);
          new_center_x = fst (get_position rb2);
          new_center_y = snd (get_position rb2);
          r1 = set_centerx (py_int new_center_x) (enemy_rect e);
          r2 = set_centery (py_int (new_center_y - 30)) r1
      in enemy_update_attack_point (e\<lparr>enemy_rigid_body := rb2, enemy_rect := r2\<rparr>))"

definition enemy_set_velocity_x :: "real \<Rightarrow> Enemy \<Rightarrow> Enemy" where
  "enemy_set_velocity_x v e = e\<lparr>enemy_rigid_body := (enemy_rigid_body e)\<lparr>velocity_x := v\<rparr>\<rparr>"

definition enemy_face_target :: "Player \<Rightarrow> Enemy \<Rightarrow> Enemy" where
  "enemy_face_target p e =
     (let d = (if rect_centerx (player_rect p) > rect_centerx (enemy_rect e) then 1 else - 1)
      in e\<lparr>enemy_dir := d, enemy_flip := (d < 0)\<rparr>)"

text \<open>The branches of \<open>update\<close> that return early: hurt, stun, die, attack.\<close>

definition enemy_update_hurt :: "Enemy \<Rightarrow> Enemy option" where
  "enemy_update_hurt e =
     (case enemy_animate (enemy_hurt_len e) (3 / 10) e of
        None \<Rightarrow> None
      | Some e1 \<Rightarrow>
          Some (if enemy_frame e1 \<ge> real (enemy_hurt_len e1) - 1
                then e1\<lparr>enemy_state := ''idle'', enemy_frame := 0\<rparr> else e1))"

definition enemy_update_stun :: "Enemy \<Rightarrow> Enemy option" where
  "enemy_update_stun e =
     (case enemy_animate (enemy_stun_frames_len e) (2 / 10) e of
        None \<Rightarrow> None
      | Some e1 \<Rightarrow>
          (let e2 = e1\<lparr>enemy_stun_timer := enemy_stun_timer e1 - 1 / 60\<rparr>;
               e3 = (if enemy_stun_timer e2 \<le> 0
                     then e2\<lparr>enemy_state := ''idle'', enemy_frame := 0, enemy_damage_dealt := False\<rparr>
                     else e2)
           in Some (enemy_set_velocity_x 0 e3)))"

definition enemy_update_die :: "Enemy \<Rightarrow> Enemy option" where
  "enemy_update_die e =
     (case enemy_animate (enemy_die_len e) (3 / 10) e of
        None \<Rightarrow> None
      | Some e1 \<Rightarrow>
          Some (if enemy_frame e1 \<ge> real (enemy_die_len e1) - 1
                then e1\<lparr>enemy_killed := True\<rparr> else e1))"

definition enemy_update_attack ::
    "EnemyTick \<Rightarrow> Enemy \<times> Player option \<times> UISystem option
       \<Rightarrow> (Enemy \<times> Player option \<times> UISystem option) option" where
  "enemy_update_attack t w =
     (case enemy_animate (enemy_attack_len (fst w)) (3 / 10) (enemy_set_velocity_x 0 (fst w)) of
        None \<Rightarrow> None
      | Some e1 \<Rightarrow>
          (let hit = (\<not> enemy_damage_dealt e1
                      \<and> enemy_frame e1 \<ge> real (enemy_attack_len e1) * enemy_damage_frame e1);
               tu = (if hit then enemy_attack_player e1 (snd w) else snd w);
               e2 = (if hit then e1\<lparr>enemy_damage_dealt := True\<rparr> else e1);
               e3 = (if enemy_frame e2 \<ge> real (enemy_attack_len e2) - 1
                     then e2\<lparr>enemy_state := ''recover'', enemy_frame := 0,
                             enemy_recover_end := tick_now t + tick_recover_pause t,
                             enemy_dir := - enemy_dir e2, enemy_damage_dealt := False\<rparr>
                     else e2)
           in Some (e3, tu)))"

text \<open>
  The rest of \<open>update\<close>, in the three steps the source marks: the distance to the
  target, 1) detection, 2) the state machine of the patrol, approach and recovery
  states, 3) the default animation.
\<close>

definition enemy_dist :: "Player option \<Rightarrow> Enemy \<Rightarrow> real" where
  "enemy_dist tgt e =
     (case tgt of
        Some p \<Rightarrow> of_int \<bar>rect_centerx (player_rect p) - rect_centerx (enemy_rect e)\<bar>
      | None \<Rightarrow> 1000000)"

definition enemy_detection :: "Player option \<Rightarrow> real \<Rightarrow> Enemy \<Rightarrow> Enemy" where
  "enemy_detection tgt distance e =
     (case tgt of
        Some p \<Rightarrow>
          if enemy_state e \<in> {''idle'', ''walk''} \<and> distance < DETECT_RANGE_e
          then enemy_face_target p (e\<lparr>enemy_state := ''approach'', enemy_frame := 0\<rparr>)
          else e
      | None \<Rightarrow> e)"

definition enemy_state_machine :: "EnemyTick \<Rightarrow> Player option \<Rightarrow> real \<Rightarrow> Enemy \<Rightarrow> Enemy" where
  "enemy_state_machine t tgt distance e1 =
     (if enemy_state e1 = ''idle'' then
        (let e' = enemy_set_velocity_x (velocity_x (enemy_rigid_body e1) * (8 / 10)) e1
         in if tick_now t \<ge> enemy_next_idle e'
            then e'\<lparr>enemy_state := ''walk'', enemy_frame := 0, enemy_patrol_dist := 0,
                    enemy_patrol_tgt := WALK_DIST, enemy_dir := tick_patrol_dir t,
                    enemy_flip := (tick_patrol_dir t < 0)\<rparr>
            else e')
      else if enemy_state e1 = ''walk'' then
        (let e' = (enemy_set_velocity_x (of_int (enemy_dir e1 * WALK_SPEED_e)) e1)
                    \<lparr>enemy_patrol_dist := enemy_patrol_dist e1 + \<bar>WALK_SPEED_e\<bar>\<rparr>
         in if enemy_patrol_dist e' \<ge> enemy_patrol_tgt e'
            then e'\<lparr>enemy_state := ''idle'', enemy_frame := 0,
                    enemy_next_idle := tick_now t + tick_idle_pause t\<rparr>
            else e')
      else if enemy_state e1 = ''approach'' then
        (if distance > ATTACK_STOP_DIST_e
         then enemy_set_velocity_x (of_int (enemy_dir e1 * WALK_SPEED_e)) e1
         else (case tgt of
                 Some p \<Rightarrow>
                   (enemy_face_target p (enemy_set_velocity_x 0 e1))
                     \<lparr>enemy_state := ''attack'', enemy_frame := 0\<rparr>
               | None \<Rightarrow> e1))
      else if enemy_state e1 = ''recover'' then
        (let e' = enemy_set_velocity_x (of_int (enemy_dir e1 * WALK_SPEED_e)) e1
         in if tick_now t \<ge> enemy_recover_end e' then
              (case tgt of
                 Some p \<Rightarrow>
                   if distance < DETECT_RANGE_e
                   then enemy_face_target p (e'\<lparr>enemy_state := ''approach'', enemy_frame := 0\<rparr>)
                   else e'\<lparr>enemy_state := ''idle'', enemy_frame := 0,
                           enemy_next_idle := tick_now t + tick_idle_pause t\<rparr>
               | None \<Rightarrow>
                   e'\<lparr>enemy_state := ''idle'', enemy_frame := 0,
                      enemy_next_idle := tick_now t + tick_idle_pause t\<rparr>)
            else e')
      else e1)"

definition enemy_default_animation :: "Enemy \<Rightarrow> Enemy option" where
  "enemy_default_animation e2 =
     (if enemy_state e2 = ''idle'' then enemy_animate (enemy_idle_len e2) (2 / 10) e2
      else if enemy_state e2 \<in> {''walk'', ''approach'', ''recover''}
      then enemy_animate (enemy_walk_len e2) (2 / 10) e2
      else Some e2)"

definition enemy_update_patrol :: "EnemyTick \<Rightarrow> Player option \<Rightarrow> Enemy \<Rightarrow> Enemy option" where
  "enemy_update_patrol t tgt e =
     (let dist = enemy_dist tgt e;
          e1 = enemy_detection tgt dist e;
          e2 = enemy_state_machine t tgt dist e1
      in enemy_default_animation e2)"

text \<open>
  \<open>Enemy.update()\<close>. The world of one call is the enemy, its target (the player, or
  \<open>None\<close>) and the UI system the enemy refers to (or \<open>None\<close>).
\<close>

definition enemy_update ::
    "EnemyTick \<Rightarrow> Enemy \<times> Player option \<times> UISystem option
       \<Rightarrow> (Enemy \<times> Player option \<times> UISystem option) option" where
  "enemy_update t w =
     (let e = enemy_update_physics (fst w) in
      if enemy_state e = ''hurt'' then map_option (\<lambda>e'. (e', snd w)) (enemy_update_hurt e)
      else if enemy_state e = ''stun'' then map_option (\<lambda>e'. (e', snd w)) (enemy_update_stun e)
      else if enemy_state e = ''die'' then map_option (\<lambda>e'. (e', snd w)) (enemy_update_die e)
      else if enemy_state e = ''attack'' then enemy_update_attack t (e, snd w)
      else map_option (\<lambda>e'. (e', snd w)) (enemy_update_patrol t (fst (snd w)) e))"

text \<open>
  The constructor \<open>Enemy(pos)\<close>: \<open>pos\<close> is the middle of the bottom edge of a
  600 by 600 sprite. The lengths of the animation sequences come from the image
  folders; the first idle pause and the patrol direction are random draws.
\<close>

definition Enemy_init ::
    "nat \<Rightarrow> nat \<Rightarrow> nat \<Rightarrow> nat \<Rightarrow> nat \<Rightarrow> nat \<Rightarrow> int \<times> int \<Rightarrow> real \<Rightarrow> int \<Rightarrow> Enemy" where
  "Enemy_init n_idle n_walk n_attack n_hurt n_die n_stun pos first_idle first_dir =
     (let r = \<lparr>rect_left = fst pos - 300, rect_top = snd pos - 600,
                rect_width = 600, rect_height = 600\<rparr>
      in \<lparr>enemy_idle_len = n_idle, enemy_walk_len = n_walk, enemy_attack_len = n_attack,
          enemy_hurt_len = n_hurt, enemy_die_len = n_die, enemy_stun_frames_len = n_stun,
          enemy_state = ''idle'', enemy_frame = 0,
          enemy_max_health = 100, enemy_current_health = 100,
          enemy_dir = first_dir, enemy_flip = (first_dir < 0), enemy_rect = r,
          enemy_next_idle = first_idle, enemy_patrol_dist = 0, enemy_patrol_tgt = 0,
          enemy_stun_timer = 0, enemy_recover_end = 0,
          enemy_attack_damage = 50,
          enemy_attack_point = (rect_centerx r, rect_centery r), enemy_attack_radius = 80,
          enemy_damage_dealt = False, enemy_damage_frame = 7 / 10,
          enemy_stunned = False, enemy_stun_end_time = 0,
          enemy_rigid_body =
            (RigidBody_init (of_int (rect_centerx r)) (of_int (rect_centery r)) 40 (3 / 2))
              \<lparr>gravity := 8 / 10, friction := 85 / 100, air_resistance := 98 / 100,
               bounce := 5 / 100\<rparr>,
          enemy_ground_y = Some (of_int (rect_bottom r)),
          enemy_killed = False\<rparr>)"

text \<open>The constructor \<open>Player(pos)\<close>; \<open>n_block\<close> is the length of the block animation.\<close>

definition Player_init :: "nat \<Rightarrow> int \<times> int \<Rightarrow> Player" where
  "Player_init n_block pos =
     (let r = \<lparr>rect_left = fst pos - 300, rect_top = snd pos - 600,
                rect_width = 600, rect_height = 600\<rparr>
      in \<lparr>player_state = SStr ''idle'', player_frame = 0, player_dir = 0, player_flip = False,
          player_rect = r, player_dashing = False, player_is_dead = False,
          player_blocking = False, player_block_animation_state = ''none'',
          player_block_animation_speed = 25 / 100,
          player_countering = False, player_counter_success = False,
          player_counter_attacking = False, player_counter_ready = False,
          player_counter_damage_dealt = False,
          player_facing = 1, player_atk_covered = 0,
          player_attack_point = (rect_centerx r + 50, rect_centery r), player_attack_radius = 50,
          player_last_attack_time = 0, player_attack_cooldown = 400,
          player_target = None, player_all_enemies = None,
          player_max_health = 1000, player_current_health = 1000,
          player_rigid_body = RigidBody_init (of_int (rect_centerx r)) (of_int (rect_centery r)) 30 1,
          player_world_x = rect_left r, player_knockback_end_time = None,
          player_auto_unblock_time = None, player_block_len = n_block\<rparr>)"

section \<open>Yori.py\<close>

text \<open>
  The boss. \<open>state\<close> is a word: \<open>'idle'\<close>, \<open>'walking'\<close>, \<open>'attack1'\<close>, \<open>'attack2'\<close>,
  \<open>'attack3'\<close>, \<open>'dash'\<close>, \<open>'counter_wait'\<close>, \<open>'hurt_counter'\<close>, \<open>'block'\<close>,
  \<open>'counter'\<close>, \<open>'skill'\<close>, \<open>'die'\<close>. The boss's target is the player; the functions
  below that read it take it as an argument (\<open>None\<close> when no target is set), and
  \<open>yori_has_target\<close> records whether one is set. \<open>is_active\<close> and
  \<open>skill_attack_radius\<close> are attributes that the constructor does not create: they are
  \<open>None\<close> until something assigns them. All frames are scaled to one size, so
  re-anchoring the sprite rectangle in \<open>animate\<close> leaves it as it is.
\<close>

record Yori =
  yori_idle_len :: nat
  yori_walking_len :: nat
  yori_attack1_len :: nat
  yori_attack2_len :: nat
  yori_attack3_len :: nat
  yori_dash_len :: nat
  yori_hurt_counter_len :: nat
  yori_block_len :: nat
  yori_death_len :: nat
  yori_counter_wait_len :: nat
  yori_counter_len :: nat
  yori_skill_len :: nat
  yori_max_health :: int
  yori_current_health :: int
  yori_state :: string
  yori_frame :: real
  yori_hurt_counter_time :: real
  yori_block_time :: real
  yori_counter_delay :: real
  yori_block_duration :: real
  yori_low_health_threshold :: real
  yori_low_health_dialog_shown :: bool
  yori_should_trigger_low_health_dialog :: bool
  yori_can_counter_attack :: bool
  yori_counter_attack_chance :: real
  yori_counter_attack_time :: real
  yori_counter_attack_duration :: real
  yori_counter_wait_duration :: real
  yori_counter_wait_start_time :: real
  yori_counter_attack_lunge :: int
  yori_counter_start_x :: int
  yori_skill_cooldown :: real
  yori_skill_cooldown_duration :: real
  yori_skill_time :: real
  yori_skill_duration :: real
  yori_skill_damage :: int
  yori_should_use_skill :: bool
  yori_knockback_start_velocity :: real
  yori_knockback_duration :: real
  yori_is_in_knockback :: bool
  yori_death_time :: real
  yori_death_knockback_force :: real
  yori_death_knockback_duration :: real
  yori_is_death_knockback :: bool
  yori_cinematic_death :: bool
  yori_dir :: int
  yori_flip :: bool
  yori_rect :: Rect
  yori_has_target :: bool
  yori_attack_combo_count :: int
  yori_attack_damage :: int
  yori_attack_point :: "int \<times> int"
  yori_attack_radius :: int
  yori_damage_dealt :: bool
  yori_damage_frame :: real
  yori_next_action_time :: real
  yori_dash_target_x :: int
  yori_is_dashing :: bool
  yori_in_combo :: bool
  yori_rigid_body :: RigidBody
  yori_ground_y :: "int option"
  yori_world_x :: int
  yori_is_active :: "bool option"
  yori_skill_attack_radius :: "int option"

definition ATTACK_STOP_DIST_y :: real where "ATTACK_STOP_DIST_y = 200"
definition WALK_SPEED_y :: int where "WALK_SPEED_y = 7"
definition DASH_SPEED :: int where "DASH_SPEED = 8"
definition DASH_DISTANCE :: int where "DASH_DISTANCE = 250"
definition ATTACK_DELAY :: real where "ATTACK_DELAY = 0"

text \<open>
  The constructor \<open>Yori(pos)\<close>. The lengths of the animation sequences come from the
  image folders, in the order in which the constructor loads them: idle, walking,
  attack 1 to 3, dash, hurt counter, block, death, counter (the waiting stance),
  counter attack, skill.
\<close>

definition Yori_init ::
    "nat \<Rightarrow> nat \<Rightarrow> nat \<Rightarrow> nat \<Rightarrow> nat \<Rightarrow> nat \<Rightarrow> nat \<Rightarrow> nat \<Rightarrow> nat \<Rightarrow> nat \<Rightarrow> nat \<Rightarrow> nat
       \<Rightarrow> int \<times> int \<Rightarrow> Yori" where
  "Yori_init n_idle n_walking n_attack1 n_attack2 n_attack3 n_dash n_hurt_counter n_block
       n_death n_counter_wait n_counter n_skill pos =
     (let r = \<lparr>rect_left = fst pos - 300, rect_top = snd pos - 600,
                rect_width = 600, rect_height = 600\<rparr>
      in \<lparr>yori_idle_len = n_idle, yori_walking_len = n_walking,
          yori_attack1_len = n_attack1, yori_attack2_len = n_attack2,
          yori_attack3_len = n_attack3, yori_dash_len = n_dash,
          yori_hurt_counter_len = n_hurt_counter, yori_block_len = n_block,
          yori_death_len = n_death, yori_counter_wait_len = n_counter_wait,
          yori_counter_len = n_counter, yori_skill_len = n_skill,
          yori_max_health = 500, yori_current_health = 500,
          yori_state = ''idle'', yori_frame = 0,
          yori_hurt_counter_time = 0, yori_block_time = 0,
          yori_counter_delay = 15 / 10, yori_block_duration = 1,
          yori_low_health_threshold = 55 / 100, yori_low_health_dialog_shown = False,
          yori_should_trigger_low_health_dialog = False, yori_can_counter_attack = False,
          yori_counter_attack_chance = 3 / 10, yori_counter_attack_time = 0,
          yori_counter_attack_duration = 2,
          yori_counter_wait_duration = 3, yori_counter_wait_start_time = 0,
          yori_counter_attack_lunge = 200, yori_counter_start_x = 0,
          yori_skill_cooldown = 0, yori_skill_cooldown_duration = 10,
          yori_skill_time = 0, yori_skill_duration = 3, yori_skill_damage = 100,
          yori_should_use_skill = False,
          yori_knockback_start_velocity = 0, yori_knockback_duration = 8 / 10,
          yori_is_in_knockback = False,
          yori_death_time = 0, yori_death_knockback_force = 10,
          yori_death_knockback_duration = 12 / 10,
          yori_is_death_knockback = False, yori_cinematic_death = False,
          yori_dir = 1, yori_flip = False, yori_rect = r, yori_has_target = False,
          yori_attack_combo_count = 0, yori_attack_damage = 75,
          yori_attack_point = (rect_centerx r, rect_centery r), yori_attack_radius = 120,
          yori_damage_dealt = False, yori_damage_frame = 6 / 10,
          yori_next_action_time = 0, yori_dash_target_x = 0, yori_is_dashing = False,
          yori_in_combo = False,
          yori_rigid_body =
            (RigidBody_init (of_int (rect_centerx r)) (of_int (rect_centery r)) 50 2)
              \<lparr>gravity := 8 / 10, friction := 9 / 10, air_resistance := 98 / 100,
               bounce := 2 / 100\<rparr>,
          yori_ground_y = Some (rect_bottom r), yori_world_x = rect_centerx r,
          yori_is_active = None, yori_skill_attack_radius = None\<rparr>)"

definition yori_set_velocity_x :: "real \<Rightarrow> Yori \<Rightarrow> Yori" where
  "yori_set_velocity_x v y = y\<lparr>yori_rigid_body := (yori_rigid_body y)\<lparr>velocity_x := v\<rparr>\<rparr>"

text \<open>\<open>update_attack_point()\<close>: in front of the boss in the attack states.\<close>

definition yori_update_attack_point :: "Yori \<Rightarrow> Yori" where
  "yori_update_attack_point y =
     (if take 6 (yori_state y) = ''attack'' then
        (let offset_x = (if yori_dir y = 1 then 150 else - 150); offset_y = - 20
         in y\<lparr>yori_attack_point := (rect_centerx (yori_rect y) + offset_x,
                                      rect_centery (yori_rect y) + offset_y)\<rparr>)
      else y\<lparr>yori_attack_point := (rect_centerx (yori_rect y), rect_centery (yori_rect y))\<rparr>)"

text \<open>Turning toward the target, as \<open>face_player\<close> and the \<open>start_\<close> functions do.\<close>

definition yori_face :: "Player option \<Rightarrow> Yori \<Rightarrow> Yori" where
  "yori_face tgt y =
     (case tgt of
        None \<Rightarrow> y
      | Some p \<Rightarrow>
          if rect_centerx (player_rect p) > rect_centerx (yori_rect y)
          then y\<lparr>yori_dir := 1, yori_flip := False\<rparr>
          else y\<lparr>yori_dir := - 1, yori_flip := True\<rparr>)"

text \<open>
  \<open>attack_player()\<close>: the target takes the damage when its centre lies within the
  attack radius of the attack point. The boss itself is not changed.
\<close>

definition yori_attack_player ::
    "Yori \<Rightarrow> Player option \<times> UISystem option \<Rightarrow> Player option \<times> UISystem option" where
  "yori_attack_player y w =
     (case fst w of
        None \<Rightarrow> w
      | Some p \<Rightarrow>
          (let px = rect_centerx (player_rect p); py = rect_centery (player_rect p);
               distance = sqrt (of_int ((fst (yori_attack_point y) - px)\<^sup>2
                                      + (snd (yori_attack_point y) - py)\<^sup>2))
           in if distance \<le> of_int (yori_attack_radius y) then
                (let res = player_take_damage (yori_attack_damage y) (snd w) p
                 in (Some (fst (snd res)), snd (snd res)))
              else w))"

definition trigger_low_health_dialog :: "Yori \<Rightarrow> Yori" where
  "trigger_low_health_dialog y =
     y\<lparr>yori_low_health_dialog_shown := True, yori_can_counter_attack := True,
       yori_should_trigger_low_health_dialog := True\<rparr>"

text \<open>
  The functions that start a state read the clock themselves; \<open>now\<close> is what
  \<open>time.time()\<close> returns to them.
\<close>

definition yori_stun :: "real \<Rightarrow> Yori \<Rightarrow> Yori" where
  "yori_stun now y =
     (if yori_state y \<noteq> ''die'' then
        yori_set_velocity_x 0
          (y\<lparr>yori_in_combo := False, yori_state := ''hurt_counter'', yori_frame := 0,
             yori_hurt_counter_time := now,
             yori_next_action_time := now + yori_counter_delay y + 2,
             yori_damage_dealt := True\<rparr>)
      else y)"

definition start_counter_wait :: "real \<Rightarrow> Yori \<Rightarrow> Yori" where
  "start_counter_wait now y =
     (if yori_state y \<noteq> ''die'' then
        yori_set_velocity_x 0
          (y\<lparr>yori_state := ''counter_wait'', yori_frame := 0,
             yori_counter_wait_start_time := now, yori_damage_dealt := True\<rparr>)
      else y)"

definition start_counter_attack :: "real \<Rightarrow> Player option \<Rightarrow> Yori \<Rightarrow> Yori" where
  "start_counter_attack now tgt y =
     (if yori_state y \<noteq> ''die'' then
        yori_face tgt
          (yori_set_velocity_x 0
             (y\<lparr>yori_state := ''counter'', yori_frame := 0, yori_counter_attack_time := now,
                yori_counter_start_x := rect_centerx (yori_rect y),
                yori_next_action_time := now + yori_counter_attack_duration y,
                yori_damage_dealt := False\<rparr>))
      else y)"

definition start_skill_attack :: "real \<Rightarrow> Player option \<Rightarrow> Yori \<Rightarrow> Yori" where
  "start_skill_attack now tgt y =
     (if yori_state y \<noteq> ''die'' \<and> yori_skill_cooldown y \<le> 0 then
        yori_face tgt
          (yori_set_velocity_x 0
             (y\<lparr>yori_state := ''skill'', yori_frame := 0, yori_skill_time := now,
                yori_next_action_time := now + yori_skill_duration y,
                yori_damage_dealt := False,
                yori_skill_cooldown := yori_skill_cooldown_duration y\<rparr>))
      else y)"

definition start_block_animation :: "real \<Rightarrow> Yori \<Rightarrow> Yori" where
  "start_block_animation now y =
     (if yori_state y \<noteq> ''die'' then
        (let knockback_force = 20;
             y1 = y\<lparr>yori_state := ''block'', yori_frame := 0, yori_block_time := now,
                    yori_next_action_time := now + yori_block_duration y + 3 / 10,
                    yori_knockback_start_velocity := knockback_force,
                    yori_is_in_knockback := True\<rparr>
         in yori_set_velocity_x (- of_int (yori_dir y1) * knockback_force) y1)
      else y)"

definition start_dash_back :: "Player option \<Rightarrow> Yori \<Rightarrow> Yori" where
  "start_dash_back tgt y =
     (case tgt of
        None \<Rightarrow> y
      | Some p \<Rightarrow>
          (let y1 = (if rect_centerx (player_rect p) > rect_centerx (yori_rect y)
                     then y\<lparr>yori_dash_target_x := rect_centerx (yori_rect y) - DASH_DISTANCE,
                            yori_dir := - 1\<rparr>
                     else y\<lparr>yori_dash_target_x := rect_centerx (yori_rect y) + DASH_DISTANCE,
                            yori_dir := 1\<rparr>)
           in y1\<lparr>yori_state := ''dash'', yori_frame := 0, yori_is_dashing := True,
                 yori_flip := (yori_dir y1 < 0)\<rparr>))"

definition start_dash_to_player :: "Player option \<Rightarrow> Yori \<Rightarrow> Yori" where
  "start_dash_to_player tgt y =
     (case tgt of
        None \<Rightarrow> y
      | Some p \<Rightarrow>
          (let y1 = (if rect_centerx (player_rect p) > rect_centerx (yori_rect y)
                     then y\<lparr>yori_dash_target_x := rect_centerx (player_rect p) - 100,
                            yori_dir := 1\<rparr>
                     else y\<lparr>yori_dash_target_x := rect_centerx (player_rect p) + 100,
                            yori_dir := - 1\<rparr>)
           in y1\<lparr>yori_state := ''dash'', yori_frame := 0, yori_is_dashing := True,
                 yori_flip := (yori_dir y1 < 0)\<rparr>))"

text \<open>
  \<open>Yori.take_damage(damage, ui_system)\<close>, at clock time \<open>now\<close>, with \<open>rnd\<close> the value
  \<open>random.random()\<close> returns if it is drawn. The health fraction is a true division:
  a maximal health of 0 raises \<open>ZeroDivisionError\<close> (the result \<open>None\<close>).
\<close>

definition yori_take_damage ::
    "real \<Rightarrow> real \<Rightarrow> int \<Rightarrow> UISystem option \<Rightarrow> Player option \<Rightarrow> Yori
       \<Rightarrow> (py_return \<times> Yori \<times> UISystem option) option" where
  "yori_take_damage now rnd damage ui tgt y =
     (if yori_state y = ''counter_wait'' then Some (PyNone, start_counter_attack now tgt y, ui)
      else if yori_state y \<noteq> ''die'' then
        (if yori_max_health y = 0 then None
         else
           (let health_percentage = of_int (yori_current_health y) / of_int (yori_max_health y)
            in if health_percentage < yori_low_health_threshold y
                  \<and> yori_state y \<in> {''attack1'', ''attack2'', ''attack3''}
                  \<and> rnd < yori_counter_attack_chance y
               then Some (PyNone, start_counter_attack now tgt y, ui)
               else
                 (let y1 = y\<lparr>yori_current_health := yori_current_health y - damage\<rparr>;
                      ui1 = add_damage_text (rect_centerx (yori_rect y1))
                              (rect_centery (yori_rect y1) - 200) (Num damage) (255, 100, 100) ui;
                      y2 = (if health_percentage \<ge> yori_low_health_threshold y1
                               \<and> of_int (yori_current_health y1) / of_int (yori_max_health y1)
                                    < yori_low_health_threshold y1
                               \<and> \<not> yori_low_health_dialog_shown y1
                            then trigger_low_health_dialog y1 else y1)
                  in if yori_current_health y2 \<le> 0 then
                       (let y3 = y2\<lparr>yori_current_health := 0, yori_state := ''die'',
                                    yori_frame := 0, yori_death_time := now\<rparr>;
                            y4 = (case tgt of
                                    Some p \<Rightarrow>
                                      y3\<lparr>yori_flip := (rect_centerx (player_rect p)
                                                          < rect_centerx (yori_rect y3)),
                                         yori_cinematic_death := True\<rparr>
                                  | None \<Rightarrow> y3);
                            y5 = y4\<lparr>yori_is_death_knockback := True,
                                    yori_knockback_start_velocity := yori_death_knockback_force y4\<rparr>;
                            knockback_dir =
                              (case tgt of
                                 Some p \<Rightarrow>
                                   (if rect_centerx (player_rect p) > rect_centerx (yori_rect y5)
                                    then - 1 else 1)
                               | None \<Rightarrow> - yori_dir y5)
                        in Some (PyNone,
                                 yori_set_velocity_x
                                   (of_int knockback_dir * yori_death_knockback_force y5) y5,
                                 ui1))
                     else Some (PyNone, y2, ui1))))
      else Some (PyNone, y, ui))"

text \<open>\<open>Yori.animate(seq, speed)\<close>: an empty sequence is left alone.\<close>

definition yori_animate :: "nat \<Rightarrow> real \<Rightarrow> Yori \<Rightarrow> Yori" where
  "yori_animate n speed y =
     (if n = 0 then y else y\<lparr>yori_frame := fmod (yori_frame y + speed) n\<rparr>)"

text \<open>
  The states that play their animation once draw \<open>seq[int(frame)]\<close> themselves: the
  index has to lie in the sequence, counted from either end, or \<open>IndexError\<close> is raised.
\<close>

definition index_ok :: "nat \<Rightarrow> int \<Rightarrow> bool" where
  "index_ok n i = (- int n \<le> i \<and> i < int n)"

definition yori_alive :: "Yori \<Rightarrow> bool" where
  "yori_alive y = (yori_current_health y > 0)"

text \<open>
  What one call of \<open>Yori.update\<close> reads from outside: the clock in seconds
  (\<open>time.time()\<close>; the reads within one call return the same value) and the clock in
  milliseconds (\<open>pygame.time.get_ticks()\<close>).
\<close>

record YoriTick =
  ytick_now :: real
  ytick_get_ticks :: int

text \<open>
  The first part of \<open>update\<close>: the step of the rigid body, the ground (a grounded boss
  is put with its feet on the ground level), the sprite position, the attack point.
\<close>

definition yori_update_physics :: "Yori \<Rightarrow> Yori" where
  "yori_update_physics y =
     (let rb1 = update_physics 1 (yori_rigid_body y);
          y2 = (case yori_ground_y y of
                  Some g \<Rightarrow>
                    (let rb2 = check_ground_collision (Some (of_int g)) rb1
                     in if is_grounded rb2 then
                          (let r = set_bottom g (yori_rect y);
                               rb3 = set_position (of_int (rect_centerx r))
                                       (of_int (rect_centery r)) rb2
                           in y\<lparr>yori_rect := r, yori_rigid_body := rb3\<lparr>velocity_y := 0\<rparr>\<rparr>)
                        else y\<lparr>yori_rigid_body := rb2\<rparr>)
                | None \<Rightarrow> y\<lparr>yori_rigid_body := rb1\<lparr>is_grounded := False\<rparr>\<rparr>);
          new_center_x = fst (get_position (yori_rigid_body y2));
          new_center_y = snd (get_position (yori_rigid_body y2));
          r1 = set_centerx (py_int new_center_x) (yori_rect y2);
          r2 = set_centery (py_int new_center_y) r1
      in yori_update_attack_point (y2\<lparr>yori_rect := r2, yori_world_x := rect_centerx r2\<rparr>))"

text \<open>
  The branches of the state machine in \<open>update\<close>, one definition per state. Each takes
  the clock, the horizontal distance to the target and the world of the call: the boss,
  its target (the player, or \<open>None\<close>) and the UI system the boss refers to (or \<open>None\<close>).
  \<open>yori_update\<close> below runs them after its first part and its two gates.
\<close>

definition yori_start_combo :: "Yori \<Rightarrow> Yori" where
  "yori_start_combo y =
     y\<lparr>yori_attack_combo_count := 0, yori_in_combo := True, yori_state := ''attack1'',
       yori_frame := 0, yori_damage_dealt := False\<rparr>"

definition yori_update_idle ::
    "real \<Rightarrow> real \<Rightarrow> Yori \<times> Player option \<times> UISystem option
       \<Rightarrow> (Yori \<times> Player option \<times> UISystem option) option" where
  "yori_update_idle now distance w =
     (let tgt = fst (snd w);
          y1 = yori_animate (yori_idle_len (fst w)) (15 / 100) (yori_face tgt (fst w))
      in if now \<ge> yori_next_action_time y1 then
           (if yori_max_health y1 = 0 then None
            else
              (let health_percentage = of_int (yori_current_health y1) / of_int (yori_max_health y1)
               in if health_percentage < yori_low_health_threshold y1
                     \<and> yori_skill_cooldown y1 \<le> 0 \<and> distance \<le> ATTACK_STOP_DIST_y
                  then Some (start_skill_attack now tgt y1, snd w)
                  else if distance \<le> ATTACK_STOP_DIST_y
                  then Some (yori_start_combo y1, snd w)
                  else Some (y1\<lparr>yori_state := ''walking'', yori_frame := 0\<rparr>, snd w)))
         else Some (y1, snd w))"

definition yori_update_walking ::
    "real \<Rightarrow> real \<Rightarrow> Yori \<times> Player option \<times> UISystem option
       \<Rightarrow> (Yori \<times> Player option \<times> UISystem option) option" where
  "yori_update_walking now distance w =
     (let tgt = fst (snd w);
          y1 = yori_animate (yori_walking_len (fst w)) (8 / 10) (yori_face tgt (fst w));
          y2 = yori_set_velocity_x (of_int (yori_dir y1 * WALK_SPEED_y)) y1
      in if yori_max_health y2 = 0 then None
         else
           (let health_percentage = of_int (yori_current_health y2) / of_int (yori_max_health y2)
            in if health_percentage < yori_low_health_threshold y2
                  \<and> yori_skill_cooldown y2 \<le> 0 \<and> distance \<le> ATTACK_STOP_DIST_y
               then Some (start_skill_attack now tgt (yori_set_velocity_x 0 y2), snd w)
               else if distance \<le> ATTACK_STOP_DIST_y
               then Some (yori_start_combo (yori_set_velocity_x 0 y2), snd w)
               else Some (y2, snd w)))"

text \<open>
  The three attack states differ in their sequence, in the pause before the second and
  the third attack, and in what follows: attack \<open>k\<close> is followed by attack \<open>k + 1\<close>, the
  third by the dash back. When the animation ends the target is read without a test:
  without a target that is an \<open>AttributeError\<close>.
\<close>

definition yori_attack_len :: "nat \<Rightarrow> Yori \<Rightarrow> nat" where
  "yori_attack_len k y =
     (if k = 1 then yori_attack1_len y else if k = 2 then yori_attack2_len y
      else yori_attack3_len y)"

definition yori_update_attack ::
    "nat \<Rightarrow> real \<Rightarrow> real \<Rightarrow> Yori \<times> Player option \<times> UISystem option
       \<Rightarrow> (Yori \<times> Player option \<times> UISystem option) option" where
  "yori_update_attack k now distance w =
     (let y0 = yori_set_velocity_x 0 (fst w); tgt = fst (snd w)
      in if (case tgt of Some p \<Rightarrow> is_int_state (player_state p) | None \<Rightarrow> False)
         then Some (start_counter_wait now y0, snd w)
         else if distance > ATTACK_STOP_DIST_y
         then Some (y0\<lparr>yori_in_combo := False, yori_state := ''idle'', yori_frame := 0,
                      yori_next_action_time := now + 5 / 10\<rparr>, snd w)
         else if k \<noteq> 1 \<and> now < yori_next_action_time y0
         then Some (yori_animate (yori_idle_len y0) (1 / 10) y0, snd w)
         else
           (let y1 = yori_animate (yori_attack_len k y0) (4 / 10) y0;
                hit = (\<not> yori_damage_dealt y1
                       \<and> yori_frame y1 \<ge> real (yori_attack_len k y1) * yori_damage_frame y1);
                tu = (if hit then yori_attack_player y1 (snd w) else snd w);
                y2 = (if hit then y1\<lparr>yori_damage_dealt := True\<rparr> else y1)
            in if yori_frame y2 \<ge> real (yori_attack_len k y2) - 1 then
                 (case fst tu of
                    None \<Rightarrow> None
                  | Some p \<Rightarrow>
                      (let is_player_behind =
                             ((rect_centerx (player_rect p) > rect_centerx (yori_rect y2)
                                 \<and> yori_flip y2)
                              \<or> (rect_centerx (player_rect p) < rect_centerx (yori_rect y2)
                                 \<and> \<not> yori_flip y2))
                       in if is_player_behind then
                            Some ((start_dash_to_player (Some p) y2)
                                    \<lparr>yori_frame := 0, yori_damage_dealt := False,
                                     yori_in_combo := False\<rparr>, tu)
                          else if k = 3 then
                            Some (start_dash_back (Some p) (y2\<lparr>yori_in_combo := False\<rparr>), tu)
                          else
                            Some (y2\<lparr>yori_attack_combo_count := int k,
                                     yori_state := (if k = 1 then ''attack2'' else ''attack3''),
                                     yori_frame := 0, yori_damage_dealt := False,
                                     yori_next_action_time := now + ATTACK_DELAY\<rparr>, tu)))
               else Some (y2, tu)))"

definition yori_update_dash ::
    "real \<Rightarrow> real \<Rightarrow> Yori \<times> Player option \<times> UISystem option
       \<Rightarrow> (Yori \<times> Player option \<times> UISystem option) option" where
  "yori_update_dash now distance w =
     (let y1 = yori_animate (yori_dash_len (fst w)) (3 / 10) (fst w)
      in if yori_is_dashing y1 then
           (let current_x = rect_centerx (yori_rect y1);
                distance_to_target = \<bar>yori_dash_target_x y1 - current_x\<bar>
            in if distance_to_target > 10 then
                 (let dash_direction = (if yori_dash_target_x y1 > current_x then 1 else - 1)
                  in Some (yori_set_velocity_x (of_int (dash_direction * DASH_SPEED)) y1, snd w))
               else
                 (let y2 = (yori_set_velocity_x 0 y1)
                             \<lparr>yori_is_dashing := False, yori_next_action_time := now\<rparr>
                  in if distance \<le> ATTACK_STOP_DIST_y
                     then Some (yori_start_combo y2, snd w)
                     else Some (y2\<lparr>yori_state := ''walking'', yori_frame := 0\<rparr>, snd w)))
         else Some (y1, snd w))"

definition yori_update_counter_wait ::
    "real \<Rightarrow> real \<Rightarrow> Yori \<times> Player option \<times> UISystem option
       \<Rightarrow> (Yori \<times> Player option \<times> UISystem option) option" where
  "yori_update_counter_wait now distance w =
     (let y0 = yori_set_velocity_x 0 (fst w);
          n = yori_counter_wait_len y0;
          y1 = (if yori_frame y0 < real n - 1 then
                  (let ya = y0\<lparr>yori_frame := yori_frame y0 + 25 / 100\<rparr>
                   in if yori_frame ya \<ge> real n then ya\<lparr>yori_frame := real n - 1\<rparr> else ya)
                else y0)
      in if \<not> index_ok n (py_int (yori_frame y1)) then None
         else if now \<ge> yori_counter_wait_start_time y1 + yori_counter_wait_duration y1
         then Some (y1\<lparr>yori_state := ''idle'', yori_frame := 0,
                      yori_next_action_time := now + 5 / 10\<rparr>, snd w)
         else Some (y1, snd w))"

definition yori_update_hurt_counter ::
    "real \<Rightarrow> real \<Rightarrow> Yori \<times> Player option \<times> UISystem option
       \<Rightarrow> (Yori \<times> Player option \<times> UISystem option) option" where
  "yori_update_hurt_counter now distance w =
     (let y1 = yori_animate (yori_hurt_counter_len (fst w)) (15 / 100)
                 (yori_set_velocity_x 0 (fst w))
      in if now \<ge> yori_hurt_counter_time y1 + yori_counter_delay y1
            \<and> now \<ge> yori_next_action_time y1
         then Some (y1\<lparr>yori_state := ''idle'', yori_frame := 0,
                      yori_next_action_time := now + 5 / 10\<rparr>, snd w)
         else Some (y1, snd w))"

text \<open>
  The block state, entered by \<open>start_block_animation\<close>. The knockback progress is a
  true division by the knockback duration.
\<close>

definition yori_update_block ::
    "real \<Rightarrow> real \<Rightarrow> Yori \<times> Player option \<times> UISystem option
       \<Rightarrow> (Yori \<times> Player option \<times> UISystem option) option" where
  "yori_update_block now distance w =
     (let y = fst w
      in if yori_is_in_knockback y \<and> yori_knockback_duration y = 0 then None
         else
           (let y1 =
                  (if yori_is_in_knockback y then
                     (let knockback_progress = (now - yori_block_time y) / yori_knockback_duration y
                      in if knockback_progress \<ge> 1
                         then yori_set_velocity_x 0 (y\<lparr>yori_is_in_knockback := False\<rparr>)
                         else
                           (let remaining_force =
                                  yori_knockback_start_velocity y * (1 - knockback_progress)
                            in yori_set_velocity_x (- of_int (yori_dir y) * remaining_force) y))
                   else y);
                y2 = yori_animate (yori_block_len y1) (12 / 100) y1
            in if now \<ge> yori_block_time y2 + yori_block_duration y2 then
                 (let y3 = yori_set_velocity_x 0 (y2\<lparr>yori_is_in_knockback := False\<rparr>)
                  in if distance \<le> ATTACK_STOP_DIST_y
                     then Some ((yori_start_combo y3)\<lparr>yori_next_action_time := now\<rparr>, snd w)
                     else Some (y3\<lparr>yori_state := ''walking'', yori_frame := 0,
                                  yori_next_action_time := now\<rparr>, snd w))
               else Some (y2, snd w)))"

text \<open>
  The counter attack: the animation is played once, the boss lunges forward from the
  fourth frame on, and at 60% of the animation the target is hit, pushed away and, if
  it survives, put into its block pose.
\<close>

definition ease_in_out :: "real \<Rightarrow> real" where
  "ease_in_out t = t * t * (3 - 2 * t)"

definition yori_counter_lunge :: "Yori \<Rightarrow> Yori" where
  "yori_counter_lunge y =
     (let frame_idx = py_int (yori_frame y)
      in if frame_idx \<ge> 3 then
           (let t0 = (yori_frame y - 3) / of_int (max 1 (int (yori_counter_len y) - 4));
                t = max 0 (min 1 t0);
                eased = ease_in_out t;
                offset = eased * of_int (yori_counter_attack_lunge y) * of_int (yori_dir y);
                new_x = of_int (yori_counter_start_x y) + offset;
                dx = new_x - of_int (rect_centerx (yori_rect y));
                rb = yori_rigid_body y
            in y\<lparr>yori_rect := set_centerx (py_int new_x) (yori_rect y),
                 yori_rigid_body :=
                   set_position (fst (get_position rb) + dx) (snd (get_position rb)) rb\<rparr>)
         else y)"

definition yori_counter_knockback :: "YoriTick \<Rightarrow> Yori \<Rightarrow> Player \<Rightarrow> Player" where
  "yori_counter_knockback t y p =
     (let knock_dir = (if rect_centerx (player_rect p) > rect_centerx (yori_rect y)
                       then 1 else - 1);
          p1 = p\<lparr>player_rigid_body := (player_rigid_body p)\<lparr>velocity_x := knock_dir * 50\<rparr>,
                 player_knockback_end_time := Some (ytick_get_ticks t + 1000)\<rparr>
      in if player_current_health p1 > 0 then
           p1\<lparr>player_blocking := True, player_block_animation_state := ''entering'',
              player_state := SStr ''block'', player_frame := 0,
              player_auto_unblock_time := Some (ytick_now t + 5 / 10)\<rparr>
         else p1)"

definition yori_update_counter ::
    "YoriTick \<Rightarrow> real \<Rightarrow> Yori \<times> Player option \<times> UISystem option
       \<Rightarrow> (Yori \<times> Player option \<times> UISystem option) option" where
  "yori_update_counter t distance w =
     (let y0 = yori_set_velocity_x 0 (fst w);
          n = yori_counter_len y0;
          ya = (if yori_frame y0 < real n - 1
                then y0\<lparr>yori_frame := yori_frame y0 + 35 / 100\<rparr> else y0);
          yb = (if yori_frame ya \<ge> real n then ya\<lparr>yori_frame := real n - 1\<rparr> else ya);
          y1 = yori_counter_lunge yb
      in if \<not> index_ok n (py_int (yori_frame y1)) then None
         else
           (let hit = (\<not> yori_damage_dealt y1 \<and> yori_frame y1 \<ge> real n * (6 / 10));
                tu = (if hit then yori_attack_player y1 (snd w) else snd w);
                tu2 = (if hit then (map_option (yori_counter_knockback t y1) (fst tu), snd tu)
                       else tu);
                y2 = (if hit then y1\<lparr>yori_damage_dealt := True\<rparr> else y1)
            in if yori_frame y2 \<ge> real n - 1 then
                 (if distance \<le> ATTACK_STOP_DIST_y
                  then Some (y2\<lparr>yori_state := ''idle'',
                               yori_next_action_time := ytick_now t + 2 / 10\<rparr>, tu2)
                  else Some (y2\<lparr>yori_state := ''walking'', yori_frame := 0\<rparr>, tu2))
               else Some (y2, tu2)))"

text \<open>
  The skill: the animation is played once, and at 70% of it the target is attacked with
  the damage and the radius of the skill, which are put back afterwards.
\<close>

definition yori_update_skill ::
    "real \<Rightarrow> real \<Rightarrow> Yori \<times> Player option \<times> UISystem option
       \<Rightarrow> (Yori \<times> Player option \<times> UISystem option) option" where
  "yori_update_skill now distance w =
     (let y0 = yori_set_velocity_x 0 (fst w);
          n = yori_skill_len y0;
          ya = (if yori_frame y0 < real n - 1
                then y0\<lparr>yori_frame := yori_frame y0 + 25 / 100\<rparr> else y0);
          y1 = (if yori_frame ya \<ge> real n then ya\<lparr>yori_frame := real n - 1\<rparr> else ya)
      in if \<not> index_ok n (py_int (yori_frame y1)) then None
         else
           (let hit = (\<not> yori_damage_dealt y1 \<and> yori_frame y1 \<ge> real n * (7 / 10));
                tu = (if hit then
                        yori_attack_player
                          (y1\<lparr>yori_attack_damage := yori_skill_damage y1,
                              yori_attack_radius :=
                                (case yori_skill_attack_radius y1 of Some r \<Rightarrow> r | None \<Rightarrow> 250)\<rparr>)
                          (snd w)
                      else snd w);
                y2 = (if hit then y1\<lparr>yori_damage_dealt := True\<rparr> else y1)
            in if now \<ge> yori_skill_time y2 + yori_skill_duration y2 then
                 (if distance \<le> ATTACK_STOP_DIST_y
                  then Some (y2\<lparr>yori_state := ''idle'',
                               yori_next_action_time := now + 5 / 10\<rparr>, tu)
                  else Some (y2\<lparr>yori_state := ''walking'', yori_frame := 0\<rparr>, tu))
               else Some (y2, tu)))"

text \<open>
  The death: the knockback decays linearly over its duration (a true division), and the
  death animation is mapped onto the first second after the death.
\<close>

definition yori_update_die ::
    "real \<Rightarrow> real \<Rightarrow> Yori \<times> Player option \<times> UISystem option
       \<Rightarrow> (Yori \<times> Player option \<times> UISystem option) option" where
  "yori_update_die now distance w =
     (let y = fst w
      in if yori_is_death_knockback y \<and> yori_death_knockback_duration y = 0 then None
         else
           (let y1 =
                  (if yori_is_death_knockback y then
                     (let death_progress = (now - yori_death_time y) / yori_death_knockback_duration y
                      in if death_progress \<ge> 1
                         then yori_set_velocity_x 0 (y\<lparr>yori_is_death_knockback := False\<rparr>)
                         else
                           (let remaining_force =
                                  yori_knockback_start_velocity y * (1 - death_progress);
                                knockback_dir =
                                  (if velocity_x (yori_rigid_body y) > 0 then 1 else - 1)
                            in yori_set_velocity_x (knockback_dir * remaining_force) y))
                   else y)
            in if yori_death_len y1 \<noteq> 0 then
                 (let time_since_death = now - yori_death_time y1;
                      total_frames = real (yori_death_len y1);
                      cinematic_duration = 1;
                      y2 = (if time_since_death < cinematic_duration
                            then y1\<lparr>yori_frame := time_since_death / cinematic_duration
                                                    * (total_frames - 1)\<rparr>
                            else y1\<lparr>yori_frame := total_frames - 1\<rparr>)
                  in if index_ok (yori_death_len y2) (py_int (yori_frame y2))
                     then Some (y2, snd w) else None)
               else Some (yori_animate (yori_hurt_counter_len y1) (1 / 10) y1, snd w)))"

text \<open>
  \<open>Yori.update()\<close>: the skill cooldown and the skill requested after the dialog, the
  first part, the gate for a dead boss that is not in its death state, the gate for a
  boss that is not active (it is put into its idle state and only animated), the
  distance to the target, and the state machine.
\<close>

definition yori_state_machine ::
    "YoriTick \<Rightarrow> real \<Rightarrow> Yori \<times> Player option \<times> UISystem option
       \<Rightarrow> (Yori \<times> Player option \<times> UISystem option) option" where
  "yori_state_machine t distance w =
     (if yori_state (fst w) = ''idle'' then yori_update_idle (ytick_now t) distance w
      else if yori_state (fst w) = ''walking'' then yori_update_walking (ytick_now t) distance w
      else if yori_state (fst w) = ''attack1'' then yori_update_attack 1 (ytick_now t) distance w
      else if yori_state (fst w) = ''attack2'' then yori_update_attack 2 (ytick_now t) distance w
      else if yori_state (fst w) = ''attack3'' then yori_update_attack 3 (ytick_now t) distance w
      else if yori_state (fst w) = ''dash'' then yori_update_dash (ytick_now t) distance w
      else if yori_state (fst w) = ''counter_wait''
      then yori_update_counter_wait (ytick_now t) distance w
      else if yori_state (fst w) = ''hurt_counter''
      then yori_update_hurt_counter (ytick_now t) distance w
      else if yori_state (fst w) = ''block'' then yori_update_block (ytick_now t) distance w
      else if yori_state (fst w) = ''counter'' then yori_update_counter t distance w
      else if yori_state (fst w) = ''skill'' then yori_update_skill (ytick_now t) distance w
      else if yori_state (fst w) = ''die'' then yori_update_die (ytick_now t) distance w
      else Some w)"

definition yori_dist :: "Player option \<Rightarrow> Yori \<Rightarrow> real" where
  "yori_dist tgt y =
     (case tgt of
        Some p \<Rightarrow> of_int \<bar>rect_centerx (player_rect p) - rect_centerx (yori_rect y)\<bar>
      | None \<Rightarrow> 1000000)"

definition yori_update_cooldown :: "real \<Rightarrow> Player option \<Rightarrow> Yori \<Rightarrow> Yori" where
  "yori_update_cooldown now tgt y =
     (let y1 = (if yori_skill_cooldown y > 0
                then y\<lparr>yori_skill_cooldown := yori_skill_cooldown y - 1 / 60\<rparr> else y)
      in if yori_should_use_skill y1 \<and> yori_skill_cooldown y1 \<le> 0
         then start_skill_attack now tgt (y1\<lparr>yori_should_use_skill := False\<rparr>)
         else y1)"

definition yori_update ::
    "YoriTick \<Rightarrow> Yori \<times> Player option \<times> UISystem option
       \<Rightarrow> (Yori \<times> Player option \<times> UISystem option) option" where
  "yori_update t w =
     (let tgt = fst (snd w);
          is_active = (yori_is_active (fst w) = Some True);
          y2 = yori_update_cooldown (ytick_now t) tgt (fst w);
          y3 = yori_update_physics y2
      in if \<not> yori_alive y3 \<and> yori_state y3 \<noteq> ''die'' then Some (y3, snd w)
         else if \<not> is_active
         then Some (yori_animate (yori_idle_len y3) (15 / 100) (y3\<lparr>yori_state := ''idle''\<rparr>),
                    snd w)
         else yori_state_machine t (yori_dist tgt y3) (y3, snd w))"

text \<open>The main loop calls \<open>update\<close> once per tick: a run over a list of ticks.\<close>

fun yori_updates ::
    "YoriTick list \<Rightarrow> Yori \<times> Player option \<times> UISystem option
       \<Rightarrow> (Yori \<times> Player option \<times> UISystem option) option" where
  "yori_updates [] w = Some w"
| "yori_updates (t # ts) w =
     (case yori_update t w of None \<Rightarrow> None | Some w' \<Rightarrow> yori_updates ts w')"

section \<open>The entities the player refers to\<close>

text \<open>
  \<open>player.target\<close> and the members of \<open>player.all_enemies\<close> are references to mooks
  and to the boss. The referenced objects live in a store, a list of entities, and a
  reference is a position in that list. The source tells the two classes apart by
  the class name \<open>'Yori'\<close>.
\<close>

datatype Combatant = Mook Enemy | Boss Yori

definition deref :: "Combatant list \<Rightarrow> nat option \<Rightarrow> Combatant option" where
  "deref store r =
     (case r of None \<Rightarrow> None
      | Some i \<Rightarrow> if i < length store then Some (store ! i) else None)"

definition combatant_rect :: "Combatant \<Rightarrow> Rect" where
  "combatant_rect c = (case c of Mook e \<Rightarrow> enemy_rect e | Boss y \<Rightarrow> yori_rect y)"

text \<open>\<open>Player.check_counter_timing()\<close>, with the target the player refers to.\<close>

definition check_counter_timing :: "Combatant option \<Rightarrow> bool" where
  "check_counter_timing target =
     (case target of
        None \<Rightarrow> False
      | Some (Boss y) \<Rightarrow>
          if yori_state y \<notin> {''attack1'', ''attack2'', ''attack3''} then False
          else
            (let attack_frames =
                   (if yori_state y = ''attack1'' then yori_attack1_len y
                    else if yori_state y = ''attack2'' then yori_attack2_len y
                    else yori_attack3_len y);
                 counter_frame_start = real attack_frames * (3 / 10);
                 counter_frame_end = real attack_frames * (7 / 10)
             in (counter_frame_start \<le> yori_frame y \<and> yori_frame y \<le> counter_frame_end)
                \<and> \<not> yori_damage_dealt y)
      | Some (Mook e) \<Rightarrow>
          if enemy_state e \<noteq> ''attack'' then False
          else
            (let counter_frame_start = real (enemy_attack_len e) * (3 / 10);
                 counter_frame_end = real (enemy_attack_len e) * (7 / 10);
                 in_counter_window = (counter_frame_start < enemy_frame e
                                      \<and> enemy_frame e < counter_frame_end);
                 damage_not_dealt = (\<not> enemy_damage_dealt e);
                 counter_possible = (in_counter_window \<and> damage_not_dealt)
             in counter_possible))"

text \<open>The main loop calls \<open>update\<close> once per tick: a run over a list of ticks.\<close>

fun enemy_updates ::
    "EnemyTick list \<Rightarrow> Enemy \<times> Player option \<times> UISystem option
       \<Rightarrow> (Enemy \<times> Player option \<times> UISystem option) option" where
  "enemy_updates [] w = Some w"
| "enemy_updates (t # ts) w =
     (case enemy_update t w of None \<Rightarrow> None | Some w' \<Rightarrow> enemy_updates ts w')"

section \<open>main.py: target queries\<close>

text \<open>
  The dynamic targeting of the main loop only considers enemies with
  \<open>current_health > 0\<close>.
\<close>

definition targetable :: "Enemy \<Rightarrow> bool" where
  "targetable e = (enemy_current_health e > 0)"

section \<open>Example entities and scenarios\<close>

text \<open>
  Concrete entities built by the constructors, on which the theorems below are run:
  a mook at (400, 670) whose hurt animation has two frames, the player at (640, 670),
  the boss at (900, 670) with attack animations of 20 frames.
\<close>

definition example_tick :: EnemyTick where
  "example_tick = \<lparr>tick_now = 0, tick_recover_pause = 2, tick_idle_pause = 2, tick_patrol_dir = 1\<rparr>"

definition example_mook :: Enemy where
  "example_mook = Enemy_init 4 4 8 2 6 4 (400, 670) 100 1"

definition example_player :: Player where
  "example_player = Player_init 6 (640, 670)"

definition example_boss :: Yori where
  "example_boss = Yori_init 8 8 20 20 20 6 6 8 10 6 10 12 (900, 670)"

text \<open>
  A hit on the mook followed by four ticks, which is what its two-frame hurt animation
  needs to end; and the three hits of the player's combo (20, 40, 60) in a row.
\<close>

definition hit_then_recover :: "int \<Rightarrow> Enemy \<Rightarrow> Enemy option" where
  "hit_then_recover d e =
     map_option fst (enemy_updates [example_tick, example_tick, example_tick, example_tick]
                        (fst (snd (enemy_take_damage d None e)), None, None))"

definition three_hits :: "Enemy \<Rightarrow> Enemy option" where
  "three_hits e =
     (case hit_then_recover 20 e of
        None \<Rightarrow> None
      | Some e2 \<Rightarrow>
          (case hit_then_recover 40 e2 of
             None \<Rightarrow> None
           | Some e4 \<Rightarrow> Some (fst (snd (enemy_take_damage 60 None e4)))))"

section \<open>The animation each mook state plays\<close>





section \<open>Knockback\<close>

text \<open>
  A function of the source that returns early hands back \<open>Return\<close>; one that falls
  through to the rest of its caller hands back \<open>Continue\<close>.
\<close>

datatype 'a flow = Return 'a | Continue 'a

text \<open>
  The branch of \<open>Player.animate\<close> for the state \<open>'block'\<close>: entering, holding and
  exiting the block pose. The frame shown is \<open>seq[int(frame)]\<close>, which raises
  \<open>IndexError\<close> outside the sequence.
\<close>

definition player_animate_block :: "Player \<Rightarrow> Player option" where
  "player_animate_block p =
     (let n = real (player_block_len p);
          p1 =
            (if player_block_animation_state p = ''entering'' then
               (let progress = (if player_block_len p > 1 then player_frame p / (n - 1) else 1);
                    speed_multiplier = 15 / 10 - progress * (8 / 10);
                    pa = p\<lparr>player_frame := player_frame p
                                   + player_block_animation_speed p * speed_multiplier\<rparr>
                in if player_frame pa \<ge> n - 1
                   then pa\<lparr>player_frame := n - 1, player_block_animation_state := ''holding''\<rparr>
                   else pa)
             else if player_block_animation_state p = ''holding'' then
               p\<lparr>player_frame := n - 1\<rparr>
             else if player_block_animation_state p = ''exiting'' then
               (let progress = (if player_block_len p > 1 then (n - 1 - player_frame p) / (n - 1) else 1);
                    speed_multiplier = 8 / 10 + progress * (7 / 10);
                    pa = p\<lparr>player_frame := player_frame p
                                   - player_block_animation_speed p * speed_multiplier\<rparr>
                in if player_frame pa \<le> 0
                   then pa\<lparr>player_frame := 0, player_blocking := False,
                           player_block_animation_state := ''none'',
                           player_state := SStr ''idle''\<rparr>
                   else pa)
             else p);
          i = py_int (player_frame p1)
      in if - int (player_block_len p) \<le> i \<and> i < int (player_block_len p) then Some p1 else None)"

text \<open>
  The head of \<open>Player.update\<close>, the "external knockback management", at clock time
  \<open>now\<close> in milliseconds. \<open>knockback_end_time\<close> is an attribute that exists only
  while a knockback is pending.
\<close>

definition player_update_knockback :: "int \<Rightarrow> Player \<Rightarrow> Player flow option" where
  "player_update_knockback now p =
     (case player_knockback_end_time p of
        None \<Rightarrow> Some (Continue p)
      | Some knockback_end \<Rightarrow>
          if player_is_dead p then Some (Continue (p\<lparr>player_knockback_end_time := None\<rparr>))
          else if now < knockback_end then
            (let p1 = p\<lparr>player_blocking := True, player_block_animation_state := ''holding'',
                        player_state := SStr ''block''\<rparr>;
                 rb1 = (player_rigid_body p1)\<lparr>is_grounded := False\<rparr>;
                 rb2 = rb1\<lparr>velocity_x := velocity_x rb1 * (95 / 100)\<rparr>;
                 rb3 = update_physics 1 rb2;
                 r1 = set_centerx (py_int (fst (get_position rb3))) (player_rect p1);
                 r2 = set_centery (py_int (snd (get_position rb3))) r1;
                 p2 = p1\<lparr>player_rigid_body := rb3, player_rect := r2,
                         player_world_x := rect_centerx r2\<rparr>
             in map_option Return (player_animate_block p2))
          else
            Some (Continue
              (p\<lparr>player_knockback_end_time := None, player_blocking := False,
                 player_block_animation_state := ''none'', player_state := SStr ''idle'',
                 player_rigid_body := (player_rigid_body p)\<lparr>velocity_x := 0, velocity_y := 0\<rparr>\<rparr>)))"

section \<open>Ground resolution\<close>



section \<open>Tile resolution\<close>

lemma sqrt_9: "sqrt 9 = 3"
  using real_sqrt_abs [of 3] by simp

lemma scaled_normal_sq:
  fixes dx dy d p :: real
  assumes "d \<noteq> 0" and "d * d = dx * dx + dy * dy"
  shows "(dx / d * p) * (dx / d * p) + (dy / d * p) * (dy / d * p) = p * p"
proof -
  have "(dx / d * p) * (dx / d * p) + (dy / d * p) * (dy / d * p)
        = (dx * dx + dy * dy) / (d * d) * (p * p)"
    using assms(1) by (simp add: field_simps)
  also have "\<dots> = p * p" using assms(1) by (simp add: assms(2) [symmetric])
  finally show ?thesis .
qed

lemma unit_normal:
  fixes dx dy :: real
  assumes "0 < sqrt (dx * dx + dy * dy)"
  shows "sqrt ((dx / sqrt (dx * dx + dy * dy) * p) * (dx / sqrt (dx * dx + dy * dy) * p)
             + (dy / sqrt (dx * dx + dy * dy) * p) * (dy / sqrt (dx * dx + dy * dy) * p)) = \<bar>p\<bar>"
proof -
  have nn: "0 \<le> dx * dx + dy * dy" by simp
  have dd: "sqrt (dx * dx + dy * dy) * sqrt (dx * dx + dy * dy) = dx * dx + dy * dy"
    using nn by simp
  have ne: "sqrt (dx * dx + dy * dy) \<noteq> 0" using assms by arith
  show ?thesis
    by (simp only: scaled_normal_sq [OF ne dd] real_sqrt_abs2)
qed


lemma clamp_nearest:
  fixes c l r p :: real
  assumes "l \<le> p" "p \<le> r"
  shows "(c - max l (min c r)) * (c - max l (min c r)) \<le> (c - p) * (c - p)"
proof -
  have "\<bar>c - max l (min c r)\<bar> \<le> \<bar>c - p\<bar>"
    using assms by (auto simp add: max_def min_def)
  then have "(c - max l (min c r))\<^sup>2 \<le> (c - p)\<^sup>2"
    by (simp only: abs_le_square_iff)
  then show ?thesis by (simp only: power2_eq_square)
qed

lemma clamp_inside:
  fixes c l r :: real
  assumes "l \<le> r"
  shows "l \<le> max l (min c r) \<and> max l (min c r) \<le> r"
  using assms by (auto simp add: max_def min_def)

text \<open>
  C7. Let \<open>(qx, qy)\<close> be the centre clamped to the tile rectangle, \<open>d\<close> the distance from
  the circle centre to it, \<open>(nx, ny)\<close> the unit vector from that point to the centre and
  \<open>dot\<close> the velocity along it. Whenever \<open>0 < d < radius\<close>, one resolution step moves the
  centre by \<open>radius - d\<close> along \<open>(nx, ny)\<close> (so the centre travels exactly that
  distance), subtracts \<open>2 * dot * n * bounce\<close> from the velocity, and, when
  \<open>ny < -0.7\<close>, sets the grounded flag and replaces a positive (downward) vertical
  velocity by 0. For a rectangle of non-negative width and height, \<open>(qx, qy)\<close> lies in the
  rectangle and no point of the rectangle is closer to the centre than \<open>d\<close>: it is the
  closest point, and the push is away from the rectangle.
\<close>

theorem resolve_tile_collision_spec:
  fixes rb :: RigidBody and tile :: Rect
  defines "cx \<equiv> center_x (collider rb)" and "cy \<equiv> center_y (collider rb)"
  defines "left \<equiv> real_of_int (rect_left tile)"
    and "right \<equiv> real_of_int (rect_left tile + rect_width tile)"
    and "top_edge \<equiv> real_of_int (rect_top tile)"
    and "bottom \<equiv> real_of_int (rect_top tile + rect_height tile)"
  defines "qx \<equiv> max left (min cx right)" and "qy \<equiv> max top_edge (min cy bottom)"
  defines "d \<equiv> sqrt ((cx - qx) * (cx - qx) + (cy - qy) * (cy - qy))"
  defines "nx \<equiv> (cx - qx) / d" and "ny \<equiv> (cy - qy) / d"
  defines "dot \<equiv> velocity_x rb * nx + velocity_y rb * ny"
  defines "rb' \<equiv> resolve_tile_collision tile rb"
  assumes rng: "0 < d" "d < radius (collider rb)"
  shows "center_x (collider rb') = cx + nx * (radius (collider rb) - d)
       \<and> center_y (collider rb') = cy + ny * (radius (collider rb) - d)
       \<and> sqrt ((center_x (collider rb') - cx) * (center_x (collider rb') - cx)
             + (center_y (collider rb') - cy) * (center_y (collider rb') - cy))
           = radius (collider rb) - d
       \<and> velocity_x rb' = velocity_x rb - 2 * dot * nx * bounce rb
       \<and> velocity_y rb' = (if ny < - (7 / 10) \<and> velocity_y rb - 2 * dot * ny * bounce rb > 0
                           then 0 else velocity_y rb - 2 * dot * ny * bounce rb)
       \<and> is_grounded rb' = (if ny < - (7 / 10) then True else is_grounded rb)
       \<and> (left \<le> right \<and> top_edge \<le> bottom \<longrightarrow>
            left \<le> qx \<and> qx \<le> right \<and> top_edge \<le> qy \<and> qy \<le> bottom
            \<and> (\<forall>px py. left \<le> px \<and> px \<le> right \<and> top_edge \<le> py \<and> py \<le> bottom \<longrightarrow>
                  d \<le> sqrt ((cx - px) * (cx - px) + (cy - py) * (cy - py))))"
proof -
  have cl: "closest_x tile cx = qx" "closest_y tile cy = qy"
    by (simp_all add: closest_x_def closest_y_def rect_right_def rect_bottom_def
          qx_def qy_def left_def right_def top_edge_def bottom_def)
  have pos: "0 < sqrt ((cx - qx) * (cx - qx) + (cy - qy) * (cy - qy))"
    using rng(1) by (simp only: d_def)
  have mv: "sqrt ((nx * (radius (collider rb) - d)) * (nx * (radius (collider rb) - d))
              + (ny * (radius (collider rb) - d)) * (ny * (radius (collider rb) - d)))
            = \<bar>radius (collider rb) - d\<bar>"
    unfolding nx_def ny_def d_def by (rule unit_normal [OF pos])
  have mv': "sqrt ((nx * (radius (collider rb) - d)) * (nx * (radius (collider rb) - d))
              + (ny * (radius (collider rb) - d)) * (ny * (radius (collider rb) - d)))
            = radius (collider rb) - d"
    using mv rng by simp
  have unf: "resolve_tile_collision tile rb =
       (let rb1 = set_position (cx + nx * (radius (collider rb) - d))
                     (cy + ny * (radius (collider rb) - d)) rb;
            rb2 = rb1\<lparr>velocity_x := velocity_x rb1 - 2 * dot * nx * bounce rb1\<rparr>;
            rb3 = rb2\<lparr>velocity_y := velocity_y rb2 - 2 * dot * ny * bounce rb2\<rparr>
        in if ny < - (7 / 10) then
             (let rb4 = rb3\<lparr>is_grounded := True, ground_y := Some (of_int (rect_top tile))\<rparr>
              in if velocity_y rb4 > 0 then rb4\<lparr>velocity_y := 0\<rparr> else rb4)
           else rb3)"
    unfolding resolve_tile_collision_def get_center_def fst_conv snd_conv Let_def
      cx_def [symmetric] cy_def [symmetric] cl
      d_def [symmetric] nx_def [symmetric] ny_def [symmetric]
    using rng by (simp add: dot_def set_position_def)
  have main: "center_x (collider rb') = cx + nx * (radius (collider rb) - d)
       \<and> center_y (collider rb') = cy + ny * (radius (collider rb) - d)
       \<and> sqrt ((center_x (collider rb') - cx) * (center_x (collider rb') - cx)
             + (center_y (collider rb') - cy) * (center_y (collider rb') - cy))
           = radius (collider rb) - d
       \<and> velocity_x rb' = velocity_x rb - 2 * dot * nx * bounce rb
       \<and> velocity_y rb' = (if ny < - (7 / 10) \<and> velocity_y rb - 2 * dot * ny * bounce rb > 0
                           then 0 else velocity_y rb - 2 * dot * ny * bounce rb)
       \<and> is_grounded rb' = (if ny < - (7 / 10) then True else is_grounded rb)"
    unfolding rb'_def unf using mv'
    by (simp add: set_position_def update_position_def Let_def cx_def cy_def)
  have near: "left \<le> right \<and> top_edge \<le> bottom \<longrightarrow>
            left \<le> qx \<and> qx \<le> right \<and> top_edge \<le> qy \<and> qy \<le> bottom
            \<and> (\<forall>px py. left \<le> px \<and> px \<le> right \<and> top_edge \<le> py \<and> py \<le> bottom \<longrightarrow>
                  d \<le> sqrt ((cx - px) * (cx - px) + (cy - py) * (cy - py)))"
  proof (intro impI conjI allI)
    assume w: "left \<le> right \<and> top_edge \<le> bottom"
    show "left \<le> qx" "qx \<le> right" using w clamp_inside [of left right cx] by (simp_all add: qx_def)
    show "top_edge \<le> qy" "qy \<le> bottom"
      using w clamp_inside [of top_edge bottom cy] by (simp_all add: qy_def)
  next
    fix px py
    assume p: "left \<le> px \<and> px \<le> right \<and> top_edge \<le> py \<and> py \<le> bottom"
    have "(cx - qx) * (cx - qx) \<le> (cx - px) * (cx - px)"
      unfolding qx_def using p by (intro clamp_nearest) simp_all
    moreover have "(cy - qy) * (cy - qy) \<le> (cy - py) * (cy - py)"
      unfolding qy_def using p by (intro clamp_nearest) simp_all
    ultimately show "d \<le> sqrt ((cx - px) * (cx - px) + (cy - py) * (cy - py))"
      unfolding d_def by (intro real_sqrt_le_mono) linarith
  qed
  show ?thesis using main near by blast
qed


text \<open>
  Two bodies of radius 5 at the tile from (0, 0) to (10, 10), both moving right and down.
  The first is centred 3 to the left of the left edge: it is pushed left to \<open>x = -5\<close>, its
  horizontal velocity drops from 1 to 0.8, and it is not grounded; the corner (0, 10) of
  the tile is not closer to it than 3. The second is centred 3 above the top edge: it is
  lifted by 2, keeps its horizontal velocity, loses its downward velocity and is grounded.
\<close>

theorem resolve_tile_collision_spec_witness:
  "center_x (collider (resolve_tile_collision \<lparr>rect_left = 0, rect_top = 0, rect_width = 10, rect_height = 10\<rparr>
         ((RigidBody_init (- 3) 5 5 1)\<lparr>velocity_x := 1, velocity_y := 2\<rparr>))) = - 5
   \<and> center_y (collider (resolve_tile_collision \<lparr>rect_left = 0, rect_top = 0, rect_width = 10, rect_height = 10\<rparr>
         ((RigidBody_init (- 3) 5 5 1)\<lparr>velocity_x := 1, velocity_y := 2\<rparr>))) = 5
   \<and> velocity_x (resolve_tile_collision \<lparr>rect_left = 0, rect_top = 0, rect_width = 10, rect_height = 10\<rparr>
         ((RigidBody_init (- 3) 5 5 1)\<lparr>velocity_x := 1, velocity_y := 2\<rparr>)) = 8 / 10
   \<and> velocity_y (resolve_tile_collision \<lparr>rect_left = 0, rect_top = 0, rect_width = 10, rect_height = 10\<rparr>
         ((RigidBody_init (- 3) 5 5 1)\<lparr>velocity_x := 1, velocity_y := 2\<rparr>)) = 2
   \<and> \<not> is_grounded (resolve_tile_collision \<lparr>rect_left = 0, rect_top = 0, rect_width = 10, rect_height = 10\<rparr>
         ((RigidBody_init (- 3) 5 5 1)\<lparr>velocity_x := 1, velocity_y := 2\<rparr>))
   \<and> (3::real) \<le> sqrt ((- 3 - 0) * (- 3 - 0) + (5 - 10) * (5 - 10))
   \<and> center_x (collider (resolve_tile_collision \<lparr>rect_left = 0, rect_top = 0, rect_width = 10, rect_height = 10\<rparr>
         ((RigidBody_init 5 (- 3) 5 1)\<lparr>velocity_x := 1, velocity_y := 2\<rparr>))) = 5
   \<and> center_y (collider (resolve_tile_collision \<lparr>rect_left = 0, rect_top = 0, rect_width = 10, rect_height = 10\<rparr>
         ((RigidBody_init 5 (- 3) 5 1)\<lparr>velocity_x := 1, velocity_y := 2\<rparr>))) = - 5
   \<and> velocity_x (resolve_tile_collision \<lparr>rect_left = 0, rect_top = 0, rect_width = 10, rect_height = 10\<rparr>
         ((RigidBody_init 5 (- 3) 5 1)\<lparr>velocity_x := 1, velocity_y := 2\<rparr>)) = 1
   \<and> velocity_y (resolve_tile_collision \<lparr>rect_left = 0, rect_top = 0, rect_width = 10, rect_height = 10\<rparr>
         ((RigidBody_init 5 (- 3) 5 1)\<lparr>velocity_x := 1, velocity_y := 2\<rparr>)) = 0
   \<and> is_grounded (resolve_tile_collision \<lparr>rect_left = 0, rect_top = 0, rect_width = 10, rect_height = 10\<rparr>
         ((RigidBody_init 5 (- 3) 5 1)\<lparr>velocity_x := 1, velocity_y := 2\<rparr>))"
proof -
  have a: "center_x (collider ((RigidBody_init (- 3) 5 5 1)\<lparr>velocity_x := 1, velocity_y := 2\<rparr>)) = - 3"
          "center_y (collider ((RigidBody_init (- 3) 5 5 1)\<lparr>velocity_x := 1, velocity_y := 2\<rparr>)) = 5"
          "radius (collider ((RigidBody_init (- 3) 5 5 1)\<lparr>velocity_x := 1, velocity_y := 2\<rparr>)) = 5"
          "velocity_x ((RigidBody_init (- 3) 5 5 1)\<lparr>velocity_x := 1, velocity_y := 2\<rparr>) = 1"
          "velocity_y ((RigidBody_init (- 3) 5 5 1)\<lparr>velocity_x := 1, velocity_y := 2\<rparr>) = 2"
          "bounce ((RigidBody_init (- 3) 5 5 1)\<lparr>velocity_x := 1, velocity_y := 2\<rparr>) = 1 / 10"
          "is_grounded ((RigidBody_init (- 3) 5 5 1)\<lparr>velocity_x := 1, velocity_y := 2\<rparr>) = False"
    by (simp_all add: RigidBody_init_def)
  have b: "center_x (collider ((RigidBody_init 5 (- 3) 5 1)\<lparr>velocity_x := 1, velocity_y := 2\<rparr>)) = 5"
          "center_y (collider ((RigidBody_init 5 (- 3) 5 1)\<lparr>velocity_x := 1, velocity_y := 2\<rparr>)) = - 3"
          "radius (collider ((RigidBody_init 5 (- 3) 5 1)\<lparr>velocity_x := 1, velocity_y := 2\<rparr>)) = 5"
          "velocity_x ((RigidBody_init 5 (- 3) 5 1)\<lparr>velocity_x := 1, velocity_y := 2\<rparr>) = 1"
          "velocity_y ((RigidBody_init 5 (- 3) 5 1)\<lparr>velocity_x := 1, velocity_y := 2\<rparr>) = 2"
          "bounce ((RigidBody_init 5 (- 3) 5 1)\<lparr>velocity_x := 1, velocity_y := 2\<rparr>) = 1 / 10"
    by (simp_all add: RigidBody_init_def)
  have ta: "center_x (collider (resolve_tile_collision \<lparr>rect_left = 0, rect_top = 0, rect_width = 10, rect_height = 10\<rparr>
         ((RigidBody_init (- 3) 5 5 1)\<lparr>velocity_x := 1, velocity_y := 2\<rparr>))) = - 5
   \<and> center_y (collider (resolve_tile_collision \<lparr>rect_left = 0, rect_top = 0, rect_width = 10, rect_height = 10\<rparr>
         ((RigidBody_init (- 3) 5 5 1)\<lparr>velocity_x := 1, velocity_y := 2\<rparr>))) = 5
   \<and> velocity_x (resolve_tile_collision \<lparr>rect_left = 0, rect_top = 0, rect_width = 10, rect_height = 10\<rparr>
         ((RigidBody_init (- 3) 5 5 1)\<lparr>velocity_x := 1, velocity_y := 2\<rparr>)) = 8 / 10
   \<and> velocity_y (resolve_tile_collision \<lparr>rect_left = 0, rect_top = 0, rect_width = 10, rect_height = 10\<rparr>
         ((RigidBody_init (- 3) 5 5 1)\<lparr>velocity_x := 1, velocity_y := 2\<rparr>)) = 2
   \<and> \<not> is_grounded (resolve_tile_collision \<lparr>rect_left = 0, rect_top = 0, rect_width = 10, rect_height = 10\<rparr>
         ((RigidBody_init (- 3) 5 5 1)\<lparr>velocity_x := 1, velocity_y := 2\<rparr>))
   \<and> (\<forall>px py. 0 \<le> px \<and> px \<le> 10 \<and> 0 \<le> py \<and> py \<le> 10 \<longrightarrow>
          (3::real) \<le> sqrt ((- 3 - px) * (- 3 - px) + (5 - py) * (5 - py)))"
    using resolve_tile_collision_spec
      [of "((RigidBody_init (- 3) 5 5 1)\<lparr>velocity_x := 1, velocity_y := 2\<rparr>)"
          "\<lparr>rect_left = 0, rect_top = 0, rect_width = 10, rect_height = 10\<rparr>"]
    unfolding a by (simp add: sqrt_9)
  have pt: "(0::real) \<le> 0 \<and> (0::real) \<le> 10 \<and> (0::real) \<le> 10 \<and> (10::real) \<le> 10" by simp
  have na: "(3::real) \<le> sqrt ((- 3 - 0) * (- 3 - 0) + (5 - 10) * (5 - 10))"
    using ta pt by blast
  have tb: "center_x (collider (resolve_tile_collision \<lparr>rect_left = 0, rect_top = 0, rect_width = 10, rect_height = 10\<rparr>
         ((RigidBody_init 5 (- 3) 5 1)\<lparr>velocity_x := 1, velocity_y := 2\<rparr>))) = 5
   \<and> center_y (collider (resolve_tile_collision \<lparr>rect_left = 0, rect_top = 0, rect_width = 10, rect_height = 10\<rparr>
         ((RigidBody_init 5 (- 3) 5 1)\<lparr>velocity_x := 1, velocity_y := 2\<rparr>))) = - 5
   \<and> velocity_x (resolve_tile_collision \<lparr>rect_left = 0, rect_top = 0, rect_width = 10, rect_height = 10\<rparr>
         ((RigidBody_init 5 (- 3) 5 1)\<lparr>velocity_x := 1, velocity_y := 2\<rparr>)) = 1
   \<and> velocity_y (resolve_tile_collision \<lparr>rect_left = 0, rect_top = 0, rect_width = 10, rect_height = 10\<rparr>
         ((RigidBody_init 5 (- 3) 5 1)\<lparr>velocity_x := 1, velocity_y := 2\<rparr>)) = 0
   \<and> is_grounded (resolve_tile_collision \<lparr>rect_left = 0, rect_top = 0, rect_width = 10, rect_height = 10\<rparr>
         ((RigidBody_init 5 (- 3) 5 1)\<lparr>velocity_x := 1, velocity_y := 2\<rparr>))"
    using resolve_tile_collision_spec
      [of "((RigidBody_init 5 (- 3) 5 1)\<lparr>velocity_x := 1, velocity_y := 2\<rparr>)"
          "\<lparr>rect_left = 0, rect_top = 0, rect_width = 10, rect_height = 10\<rparr>"]
    unfolding b by (simp add: sqrt_9)
  show ?thesis using ta na tb by blast
qed

text \<open>
  C10. When the closest point of the tile rectangle to the circle centre is the centre
  itself (distance exactly 0: the centre lies inside or on the rectangle), resolution
  of that tile returns the rigid body unchanged in every field; nothing is pushed out.
\<close>

theorem resolve_tile_collision_center_inside:
  "sqrt ((center_x (collider rb) - closest_x tile (center_x (collider rb)))
          * (center_x (collider rb) - closest_x tile (center_x (collider rb)))
        + (center_y (collider rb) - closest_y tile (center_y (collider rb)))
          * (center_y (collider rb) - closest_y tile (center_y (collider rb)))) = 0 \<Longrightarrow>
   resolve_tile_collision tile rb = rb"
  by (simp add: resolve_tile_collision_def get_center_def Let_def)

text \<open>A body of radius 30 whose centre (5, 4) lies inside the tile from (0, 0) to (10, 10).\<close>

theorem resolve_tile_collision_center_inside_witness:
  "sqrt ((center_x (collider ((RigidBody_init 5 4 30 1)\<lparr>velocity_y := 6\<rparr>))
           - closest_x \<lparr>rect_left = 0, rect_top = 0, rect_width = 10, rect_height = 10\<rparr>
               (center_x (collider ((RigidBody_init 5 4 30 1)\<lparr>velocity_y := 6\<rparr>))))
          * (center_x (collider ((RigidBody_init 5 4 30 1)\<lparr>velocity_y := 6\<rparr>))
           - closest_x \<lparr>rect_left = 0, rect_top = 0, rect_width = 10, rect_height = 10\<rparr>
               (center_x (collider ((RigidBody_init 5 4 30 1)\<lparr>velocity_y := 6\<rparr>))))
        + (center_y (collider ((RigidBody_init 5 4 30 1)\<lparr>velocity_y := 6\<rparr>))
           - closest_y \<lparr>rect_left = 0, rect_top = 0, rect_width = 10, rect_height = 10\<rparr>
               (center_y (collider ((RigidBody_init 5 4 30 1)\<lparr>velocity_y := 6\<rparr>))))
          * (center_y (collider ((RigidBody_init 5 4 30 1)\<lparr>velocity_y := 6\<rparr>))
           - closest_y \<lparr>rect_left = 0, rect_top = 0, rect_width = 10, rect_height = 10\<rparr>
               (center_y (collider ((RigidBody_init 5 4 30 1)\<lparr>velocity_y := 6\<rparr>))))) = 0
   \<and> resolve_tile_collision \<lparr>rect_left = 0, rect_top = 0, rect_width = 10, rect_height = 10\<rparr>
        ((RigidBody_init 5 4 30 1)\<lparr>velocity_y := 6\<rparr>)
     = (RigidBody_init 5 4 30 1)\<lparr>velocity_y := 6\<rparr>"
proof -
  have h: "sqrt ((center_x (collider ((RigidBody_init 5 4 30 1)\<lparr>velocity_y := 6\<rparr>))
           - closest_x \<lparr>rect_left = 0, rect_top = 0, rect_width = 10, rect_height = 10\<rparr>
               (center_x (collider ((RigidBody_init 5 4 30 1)\<lparr>velocity_y := 6\<rparr>))))
          * (center_x (collider ((RigidBody_init 5 4 30 1)\<lparr>velocity_y := 6\<rparr>))
           - closest_x \<lparr>rect_left = 0, rect_top = 0, rect_width = 10, rect_height = 10\<rparr>
               (center_x (collider ((RigidBody_init 5 4 30 1)\<lparr>velocity_y := 6\<rparr>))))
        + (center_y (collider ((RigidBody_init 5 4 30 1)\<lparr>velocity_y := 6\<rparr>))
           - closest_y \<lparr>rect_left = 0, rect_top = 0, rect_width = 10, rect_height = 10\<rparr>
               (center_y (collider ((RigidBody_init 5 4 30 1)\<lparr>velocity_y := 6\<rparr>))))
          * (center_y (collider ((RigidBody_init 5 4 30 1)\<lparr>velocity_y := 6\<rparr>))
           - closest_y \<lparr>rect_left = 0, rect_top = 0, rect_width = 10, rect_height = 10\<rparr>
               (center_y (collider ((RigidBody_init 5 4 30 1)\<lparr>velocity_y := 6\<rparr>))))) = 0"
    by (simp add: closest_x_def closest_y_def rect_right_def rect_bottom_def RigidBody_init_def)
  show ?thesis
    using h resolve_tile_collision_center_inside [OF h] by blast
qed

section \<open>The counter window\<close>

text \<open>
  C1. A counter attempt succeeds exactly when the target's frame cursor lies strictly
  inside the window from 0.3 N to 0.7 N of its attack animation and its damage latch
  is unset, the boundaries excluded for the mook and the boss alike. The code excludes
  the boundaries for the mook only: for the boss in \<open>attack1\<close> with 20 frames and the
  frame cursor at 6 (exactly 0.3 times 20), latch unset, the counter is reported
  possible, while the mook at the same cursor and length is refused.
\<close>

theorem check_counter_timing_boss_boundary:
  "check_counter_timing (Some (Boss (example_boss\<lparr>yori_state := ''attack1'', yori_frame := 6\<rparr>)))
   \<and> real (yori_attack1_len example_boss) * (3 / 10) = 6
   \<and> \<not> check_counter_timing (Some (Mook (example_mook\<lparr>enemy_attack_len := 20, enemy_state := ''attack'', enemy_frame := 6\<rparr>)))"
  by (simp add: check_counter_timing_def example_boss_def example_mook_def Yori_init_def Enemy_init_def Let_def)

section \<open>The three-hit combo on a mook\<close>

lemmas enemy_eval =
  enemy_take_damage_def add_damage_text_def
  enemy_update_def enemy_update_physics_def update_physics_def RigidBody_init_def set_position_def
  update_position_def check_ground_collision_def get_position_def get_center_def
  set_centerx_def set_centery_def py_int_def enemy_update_attack_point_def rect_centerx_def
  rect_centery_def rect_bottom_def enemy_update_hurt_def enemy_animate_def fmod_def Let_def
  enemy_update_patrol_def enemy_set_velocity_x_def enemy_dist_def enemy_detection_def
  enemy_state_machine_def enemy_default_animation_def

text \<open>
  C5. Three hits of 20, 40 and 60 on a mook of health 100, each after the hurt state of
  the previous one has ended, take its health to 100 - 20 - 40 - 60 = -20; the claim
  is that the health is then clamped to 0. The mook does enter the state \<open>'die'\<close> and
  drops out of the target queries, but \<open>Enemy.take_damage\<close> leaves its health at -20.
  After the first hit and its recovery the mook is idle with health 80.
\<close>

theorem mook_three_hits_not_clamped:
  "map_option (\<lambda>e. (enemy_current_health e, enemy_state e, targetable e)) (three_hits example_mook)
     = Some (- 20, ''die'', False)
   \<and> map_option (\<lambda>e. (enemy_current_health e, enemy_state e)) (hit_then_recover 20 example_mook)
     = Some (80, ''idle'')"
  by (simp add: three_hits_def hit_then_recover_def example_mook_def example_tick_def Enemy_init_def
       targetable_def enemy_eval)

section \<open>The boss's automatic counter\<close>

text \<open>
  C6, as stated, at 60 percent of the maximal health: the boss in \<open>attack1\<close> with
  health 300 of 500 and a random draw of 0 (below every positive chance) takes the
  hit of 20; its health drops to 280 and it stays in \<open>attack1\<close>.
\<close>

theorem boss_counter_at_sixty_percent_counterexample:
  "real_of_int (yori_current_health (example_boss\<lparr>yori_current_health := 300, yori_state := ''attack1''\<rparr>))
     / real_of_int (yori_max_health (example_boss\<lparr>yori_current_health := 300, yori_state := ''attack1''\<rparr>)) = 6 / 10
   \<and> map_option (\<lambda>r. (yori_current_health (fst (snd r)), yori_state (fst (snd r))))
        (yori_take_damage 0 0 20 None None
           (example_boss\<lparr>yori_current_health := 300, yori_state := ''attack1''\<rparr>))
      = Some (280, ''attack1'')"
  by (simp add: example_boss_def Yori_init_def yori_take_damage_def add_damage_text_def Let_def)

text \<open>
  C6, amended. When the boss's health is strictly below its low-health threshold
  (55 percent) of the maximal health, it is in one of the three attack states and
  the random draw is below its counter chance, \<open>take_damage\<close> starts the counter
  attack: the state becomes \<open>'counter'\<close> and the health is unchanged, whatever the
  damage.
\<close>

theorem boss_counter_below_threshold:
  assumes "yori_max_health y \<noteq> 0"
      and "real_of_int (yori_current_health y) / real_of_int (yori_max_health y) < yori_low_health_threshold y"
      and "yori_state y \<in> {''attack1'', ''attack2'', ''attack3''}"
      and "rnd < yori_counter_attack_chance y"
  shows "yori_take_damage now rnd damage ui tgt y = Some (PyNone, start_counter_attack now tgt y, ui)
       \<and> yori_state (start_counter_attack now tgt y) = ''counter''
       \<and> yori_current_health (start_counter_attack now tgt y) = yori_current_health y"
  using assms
  by (auto simp add: yori_take_damage_def start_counter_attack_def yori_face_def
        yori_set_velocity_x_def Let_def split: option.splits)

text \<open>The same at health 250 of 500, in \<open>attack1\<close>, with the draw 0.\<close>

theorem boss_counter_below_threshold_witness:
  "yori_max_health (example_boss\<lparr>yori_current_health := 250, yori_state := ''attack1''\<rparr>) \<noteq> 0
   \<and> real_of_int (yori_current_health (example_boss\<lparr>yori_current_health := 250, yori_state := ''attack1''\<rparr>))
       / real_of_int (yori_max_health (example_boss\<lparr>yori_current_health := 250, yori_state := ''attack1''\<rparr>))
       < yori_low_health_threshold (example_boss\<lparr>yori_current_health := 250, yori_state := ''attack1''\<rparr>)
   \<and> yori_state (example_boss\<lparr>yori_current_health := 250, yori_state := ''attack1''\<rparr>)
        \<in> {''attack1'', ''attack2'', ''attack3''}
   \<and> (0::real) < yori_counter_attack_chance (example_boss\<lparr>yori_current_health := 250, yori_state := ''attack1''\<rparr>)
   \<and> yori_take_damage 0 0 20 None None (example_boss\<lparr>yori_current_health := 250, yori_state := ''attack1''\<rparr>)
       = Some (PyNone, start_counter_attack 0 None (example_boss\<lparr>yori_current_health := 250, yori_state := ''attack1''\<rparr>), None)
   \<and> yori_state (start_counter_attack 0 None (example_boss\<lparr>yori_current_health := 250, yori_state := ''attack1''\<rparr>)) = ''counter''
   \<and> yori_current_health (start_counter_attack 0 None (example_boss\<lparr>yori_current_health := 250, yori_state := ''attack1''\<rparr>)) = 250"
proof -
  let ?y = "example_boss\<lparr>yori_current_health := 250, yori_state := ''attack1''\<rparr>"
  have h1: "yori_max_health ?y \<noteq> 0"
    and h2: "real_of_int (yori_current_health ?y) / real_of_int (yori_max_health ?y) < yori_low_health_threshold ?y"
    and h3: "yori_state ?y \<in> {''attack1'', ''attack2'', ''attack3''}"
    and h4: "(0::real) < yori_counter_attack_chance ?y"
    by (simp_all add: example_boss_def Yori_init_def Let_def)
  have h5: "yori_current_health ?y = 250" by simp
  show ?thesis
    using h1 h2 h3 h4 boss_counter_below_threshold [OF h1 h2 h3 h4, of 0 20 None None] unfolding h5
    by blast
qed

section \<open>What take_damage returns\<close>

text \<open>
  C9, as stated: \<open>take_damage\<close> returns one of the four outcomes. A blocked hit on the
  player does not return \<open>blocked\<close>, an applied hit on the player or on the mook does
  not return \<open>applied\<close>, and the blocked and the applied hit return the same value.
\<close>

theorem take_damage_outcome_counterexample:
  "fst (player_take_damage 50 None (example_player\<lparr>player_blocking := True\<rparr>)) \<noteq> PyOutcome blocked
   \<and> fst (player_take_damage 50 None example_player) \<noteq> PyOutcome applied
   \<and> fst (player_take_damage 50 None (example_player\<lparr>player_blocking := True\<rparr>))
       = fst (player_take_damage 50 None example_player)
   \<and> fst (enemy_take_damage 20 None example_mook) \<noteq> PyOutcome applied"
  by (simp add: player_take_damage_def enemy_take_damage_def example_player_def example_mook_def
        Player_init_def Enemy_init_def add_damage_text_def Let_def)

text \<open>
  C9, amended. \<open>take_damage\<close> of the player, of the mook and of the boss returns
  \<open>None\<close> on every path. For the player the outcome shows in what the call leaves
  behind: a dead or hurt player and the UI are untouched; during the skill the player
  is untouched and the text \<open>Miss\<close> is emitted; a blocking player is untouched and
  the text \<open>Blocked\<close> is emitted; otherwise the health drops by the damage, not below
  0, and the damage is emitted as a number.
\<close>

theorem take_damage_returns_none:
  "fst (player_take_damage d ui p) = PyNone
   \<and> fst (enemy_take_damage d ui e) = PyNone
   \<and> (yori_take_damage now rnd d ui tgt y = Some r \<longrightarrow> fst r = PyNone)
   \<and> (player_is_dead p \<or> player_state p \<in> {SStr ''hurt'', SStr ''death''} \<longrightarrow>
        snd (player_take_damage d ui p) = (p, ui))
   \<and> (\<not> player_is_dead p \<and> player_state p = SStr ''skill'' \<longrightarrow>
        snd (player_take_damage d ui p)
          = (p, add_damage_text (rect_centerx (player_rect p)) (rect_centery (player_rect p) - 150)
                  (Str ''Miss'') (255, 255, 0) ui))
   \<and> (\<not> player_is_dead p \<and> player_state p \<notin> {SStr ''hurt'', SStr ''death'', SStr ''skill''}
        \<and> player_blocking p \<longrightarrow>
        snd (player_take_damage d ui p)
          = (p, add_damage_text (rect_centerx (player_rect p)) (rect_centery (player_rect p) - 150)
                  (Str ''Blocked'') (60, 80, 120) ui))
   \<and> (\<not> player_is_dead p \<and> player_state p \<notin> {SStr ''hurt'', SStr ''death'', SStr ''skill''}
        \<and> \<not> player_blocking p \<longrightarrow>
        player_current_health (fst (snd (player_take_damage d ui p)))
          = max 0 (player_current_health p - d)
        \<and> snd (snd (player_take_damage d ui p))
          = add_damage_text (rect_centerx (player_rect p)) (rect_centery (player_rect p) - 150)
              (Num d) (255, 50, 50) ui)"
proof -
  have y: "yori_take_damage now rnd d ui tgt y = Some r \<longrightarrow> fst r = PyNone"
    by (auto simp add: yori_take_damage_def Let_def split: if_splits)
  show ?thesis
    using y by (simp add: player_take_damage_def enemy_take_damage_def reset_counter_state_def Let_def)
qed

text \<open>
  The same for a hit of 50 on the example entities: on the player when idle, dead,
  using the skill and blocking, on the mook and on the boss.
\<close>

theorem take_damage_returns_none_witness:
  "fst (player_take_damage 50 (Some []) example_player) = PyNone
   \<and> fst (enemy_take_damage 50 (Some []) example_mook) = PyNone
   \<and> yori_take_damage 0 0 50 (Some []) None example_boss
       = Some (PyNone, example_boss\<lparr>yori_current_health := 450\<rparr>,
               Some [\<lparr>dt_x = 900, dt_y = 170, dt_damage = Num 50, dt_color = (255, 100, 100)\<rparr>])
   \<and> snd (player_take_damage 50 (Some []) (example_player\<lparr>player_is_dead := True\<rparr>))
       = (example_player\<lparr>player_is_dead := True\<rparr>, Some [])
   \<and> snd (player_take_damage 50 (Some []) (example_player\<lparr>player_state := SStr ''skill''\<rparr>))
       = (example_player\<lparr>player_state := SStr ''skill''\<rparr>,
          Some [\<lparr>dt_x = 640, dt_y = 220, dt_damage = Str ''Miss'', dt_color = (255, 255, 0)\<rparr>])
   \<and> snd (player_take_damage 50 (Some []) (example_player\<lparr>player_blocking := True\<rparr>))
       = (example_player\<lparr>player_blocking := True\<rparr>,
          Some [\<lparr>dt_x = 640, dt_y = 220, dt_damage = Str ''Blocked'', dt_color = (60, 80, 120)\<rparr>])
   \<and> player_current_health (fst (snd (player_take_damage 50 (Some []) example_player))) = 950
   \<and> snd (snd (player_take_damage 50 (Some []) example_player))
       = Some [\<lparr>dt_x = 640, dt_y = 220, dt_damage = Num 50, dt_color = (255, 50, 50)\<rparr>]"
proof -
  have yb: "yori_take_damage 0 0 50 (Some []) None example_boss
       = Some (PyNone, example_boss\<lparr>yori_current_health := 450\<rparr>,
               Some [\<lparr>dt_x = 900, dt_y = 170, dt_damage = Num 50, dt_color = (255, 100, 100)\<rparr>])"
    by (simp add: example_boss_def Yori_init_def yori_take_damage_def add_damage_text_def
          rect_centerx_def rect_centery_def Let_def)
  have ex: "\<not> player_is_dead example_player"
           "player_state example_player = SStr ''idle''"
           "\<not> player_blocking example_player"
           "player_current_health example_player = 1000"
           "rect_centerx (player_rect example_player) = 640"
           "rect_centery (player_rect example_player) = 370"
    by (simp_all add: example_player_def Player_init_def rect_centerx_def rect_centery_def Let_def)
  show ?thesis
    using yb
      take_damage_returns_none [of 50 "Some []" example_player example_mook 0 0 None example_boss
                     "(PyNone, example_boss\<lparr>yori_current_health := 450\<rparr>,
                       Some [\<lparr>dt_x = 900, dt_y = 170, dt_damage = Num 50, dt_color = (255, 100, 100)\<rparr>])"]
      take_damage_returns_none [of 50 "Some []" "example_player\<lparr>player_is_dead := True\<rparr>" example_mook 0 0 None example_boss]
      take_damage_returns_none [of 50 "Some []" "example_player\<lparr>player_state := SStr ''skill''\<rparr>" example_mook 0 0 None example_boss]
      take_damage_returns_none [of 50 "Some []" "example_player\<lparr>player_blocking := True\<rparr>" example_mook 0 0 None example_boss]
    by (simp add: ex add_damage_text_def)
qed

section \<open>The frame cursor of the mook\<close>

lemma phys_keeps [simp]:
  "enemy_state (enemy_update_physics e) = enemy_state e"
  "enemy_frame (enemy_update_physics e) = enemy_frame e"
  "enemy_hurt_len (enemy_update_physics e) = enemy_hurt_len e"
  "enemy_stun_frames_len (enemy_update_physics e) = enemy_stun_frames_len e"
  "enemy_die_len (enemy_update_physics e) = enemy_die_len e"
  "enemy_attack_len (enemy_update_physics e) = enemy_attack_len e"
  "enemy_idle_len (enemy_update_physics e) = enemy_idle_len e"
  "enemy_walk_len (enemy_update_physics e) = enemy_walk_len e"
  "enemy_damage_dealt (enemy_update_physics e) = enemy_damage_dealt e"
  "enemy_damage_frame (enemy_update_physics e) = enemy_damage_frame e"
  "enemy_current_health (enemy_update_physics e) = enemy_current_health e"
  by (simp_all add: enemy_update_physics_def enemy_update_attack_point_def Let_def)








lemma state_machine_stays:
  "enemy_state e \<notin> {''idle'', ''walk'', ''approach'', ''recover''} \<Longrightarrow>
   enemy_state_machine t tgt dst e = e"
  by (simp add: enemy_state_machine_def)

lemma patrol_lens [simp]:
  "enemy_idle_len (enemy_detection tgt dst e) = enemy_idle_len e"
  "enemy_idle_len (enemy_state_machine t tgt dst e) = enemy_idle_len e"
  "enemy_walk_len (enemy_detection tgt dst e) = enemy_walk_len e"
  "enemy_walk_len (enemy_state_machine t tgt dst e) = enemy_walk_len e"
  "enemy_attack_len (enemy_detection tgt dst e) = enemy_attack_len e"
  "enemy_attack_len (enemy_state_machine t tgt dst e) = enemy_attack_len e"
  "enemy_hurt_len (enemy_detection tgt dst e) = enemy_hurt_len e"
  "enemy_hurt_len (enemy_state_machine t tgt dst e) = enemy_hurt_len e"
  "enemy_die_len (enemy_detection tgt dst e) = enemy_die_len e"
  "enemy_die_len (enemy_state_machine t tgt dst e) = enemy_die_len e"
  "enemy_stun_frames_len (enemy_detection tgt dst e) = enemy_stun_frames_len e"
  "enemy_stun_frames_len (enemy_state_machine t tgt dst e) = enemy_stun_frames_len e"
  by (simp_all add: enemy_detection_def enemy_state_machine_def enemy_face_target_def
        enemy_set_velocity_x_def Let_def split: option.splits)






lemma fmod_range: "0 < n \<Longrightarrow> 0 \<le> fmod x n \<and> fmod x n < real n"
proof -
  assume n: "0 < n"
  define q where "q = \<lfloor>x / real n\<rfloor>"
  have "of_int q \<le> x / real n" "x / real n < of_int q + 1"
    unfolding q_def by linarith+
  then have "of_int q * real n \<le> x" "x < (of_int q + 1) * real n"
    using n by (simp_all add: pos_le_divide_eq pos_divide_less_eq)
  then show ?thesis unfolding fmod_def q_def [symmetric] by (simp add: algebra_simps)
qed





section \<open>Knockback decay\<close>

lemma yori_physics_keeps [simp]:
  "yori_state (yori_update_physics y) = yori_state y"
  "yori_frame (yori_update_physics y) = yori_frame y"
  "yori_current_health (yori_update_physics y) = yori_current_health y"
  "yori_max_health (yori_update_physics y) = yori_max_health y"
  "yori_is_active (yori_update_physics y) = yori_is_active y"
  "yori_is_in_knockback (yori_update_physics y) = yori_is_in_knockback y"
  "yori_knockback_duration (yori_update_physics y) = yori_knockback_duration y"
  "yori_knockback_start_velocity (yori_update_physics y) = yori_knockback_start_velocity y"
  "yori_block_time (yori_update_physics y) = yori_block_time y"
  "yori_block_duration (yori_update_physics y) = yori_block_duration y"
  "yori_block_len (yori_update_physics y) = yori_block_len y"
  "yori_dir (yori_update_physics y) = yori_dir y"
  "yori_damage_dealt (yori_update_physics y) = yori_damage_dealt y"
  by (simp_all add: yori_update_physics_def yori_update_attack_point_def Let_def
        split: option.splits)

lemma yori_cooldown_keeps:
  assumes "\<not> yori_should_use_skill y"
  shows "yori_state (yori_update_cooldown now tgt y) = yori_state y"
  "yori_frame (yori_update_cooldown now tgt y) = yori_frame y"
  "yori_current_health (yori_update_cooldown now tgt y) = yori_current_health y"
  "yori_max_health (yori_update_cooldown now tgt y) = yori_max_health y"
  "yori_is_active (yori_update_cooldown now tgt y) = yori_is_active y"
  "yori_is_in_knockback (yori_update_cooldown now tgt y) = yori_is_in_knockback y"
  "yori_knockback_duration (yori_update_cooldown now tgt y) = yori_knockback_duration y"
  "yori_knockback_start_velocity (yori_update_cooldown now tgt y) = yori_knockback_start_velocity y"
  "yori_block_time (yori_update_cooldown now tgt y) = yori_block_time y"
  "yori_block_duration (yori_update_cooldown now tgt y) = yori_block_duration y"
  "yori_block_len (yori_update_cooldown now tgt y) = yori_block_len y"
  "yori_dir (yori_update_cooldown now tgt y) = yori_dir y"
  "yori_damage_dealt (yori_update_cooldown now tgt y) = yori_damage_dealt y"
  using assms by (simp_all add: yori_update_cooldown_def Let_def)

lemma yori_block_branch:
  assumes k: "yori_is_in_knockback y" and D: "0 < yori_knockback_duration y"
  shows "(now - yori_block_time y < yori_knockback_duration y
          \<and> now < yori_block_time y + yori_block_duration y \<longrightarrow>
           (\<exists>y'. yori_update_block now distance (y, tu) = Some (y', tu)
              \<and> velocity_x (yori_rigid_body y')
                  = - of_int (yori_dir y)
                    * (yori_knockback_start_velocity y
                       * (1 - (now - yori_block_time y) / yori_knockback_duration y))
              \<and> yori_is_in_knockback y' \<and> yori_state y' = yori_state y))
       \<and> (now - yori_block_time y \<ge> yori_knockback_duration y \<longrightarrow>
           (\<exists>y'. yori_update_block now distance (y, tu) = Some (y', tu)
              \<and> velocity_x (yori_rigid_body y') = 0 \<and> \<not> yori_is_in_knockback y'))"
  using k D
  by (simp add: yori_update_block_def yori_set_velocity_x_def yori_animate_def Let_def
        yori_start_combo_def pos_le_divide_eq pos_divide_less_eq not_le)

lemma yori_update_in_block:
  assumes st: "yori_state y = ''block''" and act: "yori_is_active y = Some True"
    and alive: "0 < yori_current_health y" and ns: "\<not> yori_should_use_skill y"
  shows "yori_update t (y, tu)
         = yori_update_block (ytick_now t)
             (yori_dist (fst tu) (yori_update_physics (yori_update_cooldown (ytick_now t) (fst tu) y)))
             (yori_update_physics (yori_update_cooldown (ytick_now t) (fst tu) y), tu)"
  using st act alive
  by (simp add: yori_update_def yori_state_machine_def yori_alive_def Let_def
        yori_cooldown_keeps [OF ns])

lemma yori_knockback:
  assumes st: "yori_state y = ''block''" and act: "yori_is_active y = Some True"
    and alive: "0 < yori_current_health y" and ns: "\<not> yori_should_use_skill y"
    and k: "yori_is_in_knockback y" and D: "0 < yori_knockback_duration y"
  shows "(ytick_now t - yori_block_time y < yori_knockback_duration y
          \<and> ytick_now t < yori_block_time y + yori_block_duration y \<longrightarrow>
           (\<exists>y'. yori_update t (y, tu) = Some (y', tu)
              \<and> velocity_x (yori_rigid_body y')
                  = - of_int (yori_dir y)
                    * (yori_knockback_start_velocity y
                       * (1 - (ytick_now t - yori_block_time y) / yori_knockback_duration y))
              \<and> yori_is_in_knockback y' \<and> yori_state y' = ''block''))
       \<and> (ytick_now t - yori_block_time y \<ge> yori_knockback_duration y \<longrightarrow>
           (\<exists>y'. yori_update t (y, tu) = Some (y', tu)
              \<and> velocity_x (yori_rigid_body y') = 0 \<and> \<not> yori_is_in_knockback y'))"
proof -
  let ?y3 = "yori_update_physics (yori_update_cooldown (ytick_now t) (fst tu) y)"
  have k3: "yori_is_in_knockback ?y3" and D3: "0 < yori_knockback_duration ?y3"
    using k D by (simp_all add: yori_cooldown_keeps [OF ns])
  note b = yori_block_branch [OF k3 D3, of "ytick_now t" "yori_dist (fst tu) ?y3" tu]
  show ?thesis
    using b st unfolding yori_update_in_block [OF st act alive ns]
    by (simp add: yori_cooldown_keeps [OF ns])
qed

lemma player_knockback:
  assumes "player_knockback_end_time p = Some k" "\<not> player_is_dead p"
  shows "(now < k \<and> 0 < player_block_len p \<longrightarrow>
           (\<exists>p'. player_update_knockback now p = Some (Return p')
              \<and> player_blocking p' \<and> player_state p' = SStr ''block''
              \<and> player_block_animation_state p' = ''holding''
              \<and> \<not> is_grounded (player_rigid_body p')
              \<and> velocity_x (player_rigid_body p')
                  = (velocity_x (player_rigid_body p) * (95 / 100)
                     + acceleration_x (player_rigid_body p))
                    * air_resistance (player_rigid_body p)))
       \<and> (k \<le> now \<longrightarrow>
           (\<exists>p'. player_update_knockback now p = Some (Continue p')
              \<and> player_knockback_end_time p' = None
              \<and> \<not> player_blocking p' \<and> player_state p' = SStr ''idle''
              \<and> velocity_x (player_rigid_body p') = 0
              \<and> velocity_y (player_rigid_body p') = 0))"
  using assms
  by (simp add: player_update_knockback_def player_animate_block_def update_physics_def
        set_position_def update_position_def py_int_def Let_def)

text \<open>
  C4, as stated: at half of the knockback time the horizontal force is half the initial
  force. The player, pushed with velocity 50 and a knockback of 1000 ms, leaves the
  update at 500 ms with velocity 50 * 0.95 * 0.99 = 47.025, not 25.
\<close>

theorem knockback_player_counterexample:
  "map_option (\<lambda>f. case f of Return p' \<Rightarrow> velocity_x (player_rigid_body p') | Continue p' \<Rightarrow> 0)
     (player_update_knockback 500
        (example_player\<lparr>player_knockback_end_time := Some 1000,
           player_rigid_body := (player_rigid_body example_player)\<lparr>velocity_x := 50\<rparr>\<rparr>))
     = Some (47025 / 1000)
   \<and> (47025 / 1000 :: real) \<noteq> 50 * (1 - 500 / 1000)"
proof -
  let ?p = "example_player\<lparr>player_knockback_end_time := Some 1000,
           player_rigid_body := (player_rigid_body example_player)\<lparr>velocity_x := 50\<rparr>\<rparr>"
  have h: "player_knockback_end_time ?p = Some 1000" "\<not> player_is_dead ?p"
    "(500::int) < 1000 \<and> 0 < player_block_len ?p"
    by (simp_all add: example_player_def Player_init_def Let_def)
  have v: "velocity_x (player_rigid_body ?p) = 50" "acceleration_x (player_rigid_body ?p) = 0"
    "air_resistance (player_rigid_body ?p) = 99 / 100"
    by (simp_all add: example_player_def Player_init_def RigidBody_init_def Let_def)
  from player_knockback [OF h(1) h(2), of 500] h(3)
  obtain p' where u: "player_update_knockback 500 ?p = Some (Return p')"
    and w: "velocity_x (player_rigid_body p')
             = (velocity_x (player_rigid_body ?p) * (95 / 100)
                + acceleration_x (player_rigid_body ?p)) * air_resistance (player_rigid_body ?p)"
    by blast
  have "velocity_x (player_rigid_body p') = 47025 / 1000"
    unfolding w v by simp
  then show ?thesis unfolding u by simp
qed

lemma yori_knockback_all:
  "(yori_state y = ''block'' \<and> yori_is_active y = Some True \<and> 0 < yori_current_health y
    \<and> \<not> yori_should_use_skill y \<and> yori_is_in_knockback y \<and> 0 < yori_knockback_duration y \<longrightarrow>
      (ytick_now t - yori_block_time y < yori_knockback_duration y
          \<and> ytick_now t < yori_block_time y + yori_block_duration y \<longrightarrow>
           (\<exists>y'. yori_update t (y, tu) = Some (y', tu)
              \<and> velocity_x (yori_rigid_body y')
                  = - of_int (yori_dir y)
                    * (yori_knockback_start_velocity y
                       * (1 - (ytick_now t - yori_block_time y) / yori_knockback_duration y))
              \<and> yori_is_in_knockback y' \<and> yori_state y' = ''block''))
      \<and> (ytick_now t - yori_block_time y = yori_knockback_duration y / 2
          \<and> ytick_now t < yori_block_time y + yori_block_duration y \<longrightarrow>
           (\<exists>y'. yori_update t (y, tu) = Some (y', tu)
              \<and> velocity_x (yori_rigid_body y')
                  = - of_int (yori_dir y) * (yori_knockback_start_velocity y * (1 / 2))))
      \<and> (ytick_now t - yori_block_time y \<ge> yori_knockback_duration y \<longrightarrow>
           (\<exists>y'. yori_update t (y, tu) = Some (y', tu)
              \<and> velocity_x (yori_rigid_body y') = 0 \<and> \<not> yori_is_in_knockback y')))"
proof (rule impI)
  assume a: "yori_state y = ''block'' \<and> yori_is_active y = Some True \<and> 0 < yori_current_health y
    \<and> \<not> yori_should_use_skill y \<and> yori_is_in_knockback y \<and> 0 < yori_knockback_duration y"
  then have st: "yori_state y = ''block''" and act: "yori_is_active y = Some True"
    and alive: "0 < yori_current_health y" and ns: "\<not> yori_should_use_skill y"
    and k: "yori_is_in_knockback y" and D: "0 < yori_knockback_duration y" by simp_all
  note yk = yori_knockback [OF st act alive ns k D, of t tu]
  have half: "\<exists>y'. yori_update t (y, tu) = Some (y', tu)
              \<and> velocity_x (yori_rigid_body y')
                  = - of_int (yori_dir y) * (yori_knockback_start_velocity y * (1 / 2))"
    if h: "ytick_now t - yori_block_time y = yori_knockback_duration y / 2
          \<and> ytick_now t < yori_block_time y + yori_block_duration y"
  proof -
    have lt: "ytick_now t - yori_block_time y < yori_knockback_duration y" using h D by simp
    have hf: "1 - (ytick_now t - yori_block_time y) / yori_knockback_duration y = 1 / 2"
      using h D by simp
    from yk lt h obtain y' where "yori_update t (y, tu) = Some (y', tu)"
      "velocity_x (yori_rigid_body y')
                  = - of_int (yori_dir y)
                    * (yori_knockback_start_velocity y
                       * (1 - (ytick_now t - yori_block_time y) / yori_knockback_duration y))"
      by blast
    then show ?thesis unfolding hf by blast
  qed
  show "(ytick_now t - yori_block_time y < yori_knockback_duration y
          \<and> ytick_now t < yori_block_time y + yori_block_duration y \<longrightarrow>
           (\<exists>y'. yori_update t (y, tu) = Some (y', tu)
              \<and> velocity_x (yori_rigid_body y')
                  = - of_int (yori_dir y)
                    * (yori_knockback_start_velocity y
                       * (1 - (ytick_now t - yori_block_time y) / yori_knockback_duration y))
              \<and> yori_is_in_knockback y' \<and> yori_state y' = ''block''))
      \<and> (ytick_now t - yori_block_time y = yori_knockback_duration y / 2
          \<and> ytick_now t < yori_block_time y + yori_block_duration y \<longrightarrow>
           (\<exists>y'. yori_update t (y, tu) = Some (y', tu)
              \<and> velocity_x (yori_rigid_body y')
                  = - of_int (yori_dir y) * (yori_knockback_start_velocity y * (1 / 2))))
      \<and> (ytick_now t - yori_block_time y \<ge> yori_knockback_duration y \<longrightarrow>
           (\<exists>y'. yori_update t (y, tu) = Some (y', tu)
              \<and> velocity_x (yori_rigid_body y') = 0 \<and> \<not> yori_is_in_knockback y'))"
    using yk half by blast
qed

lemma player_knockback_all:
  "(player_knockback_end_time p = Some k \<and> \<not> player_is_dead p \<longrightarrow>
      (now_ms < k \<and> 0 < player_block_len p \<longrightarrow>
           (\<exists>p'. player_update_knockback now_ms p = Some (Return p')
              \<and> player_blocking p' \<and> player_state p' = SStr ''block''
              \<and> player_block_animation_state p' = ''holding''
              \<and> \<not> is_grounded (player_rigid_body p')
              \<and> velocity_x (player_rigid_body p')
                  = (velocity_x (player_rigid_body p) * (95 / 100)
                     + acceleration_x (player_rigid_body p))
                    * air_resistance (player_rigid_body p)))
      \<and> (k \<le> now_ms \<longrightarrow>
           (\<exists>p'. player_update_knockback now_ms p = Some (Continue p')
              \<and> player_knockback_end_time p' = None
              \<and> \<not> player_blocking p' \<and> player_state p' = SStr ''idle''
              \<and> velocity_x (player_rigid_body p') = 0
              \<and> velocity_y (player_rigid_body p') = 0)))"
  using player_knockback [of p k now_ms] by blast

text \<open>
  C4, amended. The boss in its block state, active, alive and with no skill requested,
  with a knockback of initial force \<open>F\<close> and positive duration \<open>D\<close> running since
  \<open>block_time\<close>: before \<open>D\<close> has elapsed and the block has ended, one call of
  \<open>update\<close> leaves the horizontal velocity at \<open>-dir * F * (1 - elapsed / D)\<close>, so at
  half the force at \<open>D / 2\<close>, and the boss stays in its block state; once \<open>D\<close> has
  elapsed the velocity is exactly 0 and the knockback is over. The player with a
  pending knockback, alive: before the end time the update returns early in the block
  pose (blocking, holding, state \<open>'block'\<close>), not grounded, with the horizontal
  velocity multiplied by 0.95 and by the air resistance; from the end time on it
  clears the end time, leaves the block pose for \<open>'idle'\<close> and zeroes the velocity.
\<close>

theorem knockback_decay:
  "(yori_state y = ''block'' \<and> yori_is_active y = Some True \<and> 0 < yori_current_health y
    \<and> \<not> yori_should_use_skill y \<and> yori_is_in_knockback y \<and> 0 < yori_knockback_duration y \<longrightarrow>
      (ytick_now t - yori_block_time y < yori_knockback_duration y
          \<and> ytick_now t < yori_block_time y + yori_block_duration y \<longrightarrow>
           (\<exists>y'. yori_update t (y, tu) = Some (y', tu)
              \<and> velocity_x (yori_rigid_body y')
                  = - of_int (yori_dir y)
                    * (yori_knockback_start_velocity y
                       * (1 - (ytick_now t - yori_block_time y) / yori_knockback_duration y))
              \<and> yori_is_in_knockback y' \<and> yori_state y' = ''block''))
      \<and> (ytick_now t - yori_block_time y = yori_knockback_duration y / 2
          \<and> ytick_now t < yori_block_time y + yori_block_duration y \<longrightarrow>
           (\<exists>y'. yori_update t (y, tu) = Some (y', tu)
              \<and> velocity_x (yori_rigid_body y')
                  = - of_int (yori_dir y) * (yori_knockback_start_velocity y * (1 / 2))))
      \<and> (ytick_now t - yori_block_time y \<ge> yori_knockback_duration y \<longrightarrow>
           (\<exists>y'. yori_update t (y, tu) = Some (y', tu)
              \<and> velocity_x (yori_rigid_body y') = 0 \<and> \<not> yori_is_in_knockback y')))
   \<and> (player_knockback_end_time p = Some k \<and> \<not> player_is_dead p \<longrightarrow>
      (now_ms < k \<and> 0 < player_block_len p \<longrightarrow>
           (\<exists>p'. player_update_knockback now_ms p = Some (Return p')
              \<and> player_blocking p' \<and> player_state p' = SStr ''block''
              \<and> player_block_animation_state p' = ''holding''
              \<and> \<not> is_grounded (player_rigid_body p')
              \<and> velocity_x (player_rigid_body p')
                  = (velocity_x (player_rigid_body p) * (95 / 100)
                     + acceleration_x (player_rigid_body p))
                    * air_resistance (player_rigid_body p)))
      \<and> (k \<le> now_ms \<longrightarrow>
           (\<exists>p'. player_update_knockback now_ms p = Some (Continue p')
              \<and> player_knockback_end_time p' = None
              \<and> \<not> player_blocking p' \<and> player_state p' = SStr ''idle''
              \<and> velocity_x (player_rigid_body p') = 0
              \<and> velocity_y (player_rigid_body p') = 0)))"
  by (rule conjI) (rule yori_knockback_all, rule player_knockback_all)

text \<open>
  The same on the example boss, activated and knocked back at time 0 (force 20,
  duration 0.8), updated at 0.4 and at 0.9 with the example player as its target, and
  on the example player with a knockback ending at 1000 ms, updated at 500 ms and at
  1000 ms.
\<close>

theorem knockback_decay_witness:
  "yori_state ((start_block_animation 0 example_boss)\<lparr>yori_is_active := Some True\<rparr>) = ''block''
   \<and> yori_is_active ((start_block_animation 0 example_boss)\<lparr>yori_is_active := Some True\<rparr>) = Some True
   \<and> 0 < yori_current_health ((start_block_animation 0 example_boss)\<lparr>yori_is_active := Some True\<rparr>)
   \<and> \<not> yori_should_use_skill ((start_block_animation 0 example_boss)\<lparr>yori_is_active := Some True\<rparr>)
   \<and> yori_is_in_knockback ((start_block_animation 0 example_boss)\<lparr>yori_is_active := Some True\<rparr>)
   \<and> 0 < yori_knockback_duration ((start_block_animation 0 example_boss)\<lparr>yori_is_active := Some True\<rparr>)
   \<and> ytick_now \<lparr>ytick_now = 4 / 10, ytick_get_ticks = 400\<rparr> - yori_block_time ((start_block_animation 0 example_boss)\<lparr>yori_is_active := Some True\<rparr>) = yori_knockback_duration ((start_block_animation 0 example_boss)\<lparr>yori_is_active := Some True\<rparr>) / 2
   \<and> ytick_now \<lparr>ytick_now = 4 / 10, ytick_get_ticks = 400\<rparr> < yori_block_time ((start_block_animation 0 example_boss)\<lparr>yori_is_active := Some True\<rparr>) + yori_block_duration ((start_block_animation 0 example_boss)\<lparr>yori_is_active := Some True\<rparr>)
   \<and> (\<exists>y'. yori_update \<lparr>ytick_now = 4 / 10, ytick_get_ticks = 400\<rparr> (((start_block_animation 0 example_boss)\<lparr>yori_is_active := Some True\<rparr>), (Some example_player, None)) = Some (y', (Some example_player, None))
         \<and> velocity_x (yori_rigid_body y') = - 10)
   \<and> ytick_now \<lparr>ytick_now = 9 / 10, ytick_get_ticks = 900\<rparr> - yori_block_time ((start_block_animation 0 example_boss)\<lparr>yori_is_active := Some True\<rparr>) \<ge> yori_knockback_duration ((start_block_animation 0 example_boss)\<lparr>yori_is_active := Some True\<rparr>)
   \<and> (\<exists>y'. yori_update \<lparr>ytick_now = 9 / 10, ytick_get_ticks = 900\<rparr> (((start_block_animation 0 example_boss)\<lparr>yori_is_active := Some True\<rparr>), (Some example_player, None)) = Some (y', (Some example_player, None))
         \<and> velocity_x (yori_rigid_body y') = 0 \<and> \<not> yori_is_in_knockback y')
   \<and> player_knockback_end_time (example_player\<lparr>player_knockback_end_time := Some 1000\<rparr>) = Some 1000
   \<and> \<not> player_is_dead (example_player\<lparr>player_knockback_end_time := Some 1000\<rparr>)
   \<and> (500::int) < 1000
   \<and> 0 < player_block_len (example_player\<lparr>player_knockback_end_time := Some 1000\<rparr>)
   \<and> (\<exists>p'. player_update_knockback 500 (example_player\<lparr>player_knockback_end_time := Some 1000\<rparr>)
              = Some (Return p')
         \<and> player_blocking p' \<and> player_state p' = SStr ''block''
         \<and> \<not> is_grounded (player_rigid_body p'))
   \<and> (1000::int) \<le> 1000
   \<and> (\<exists>p'. player_update_knockback 1000 (example_player\<lparr>player_knockback_end_time := Some 1000\<rparr>)
              = Some (Continue p')
         \<and> player_knockback_end_time p' = None \<and> player_state p' = SStr ''idle''
         \<and> velocity_x (player_rigid_body p') = 0)"
proof -
  let ?y = "((start_block_animation 0 example_boss)\<lparr>yori_is_active := Some True\<rparr>)"
  let ?p = "example_player\<lparr>player_knockback_end_time := Some 1000\<rparr>"
  let ?t1 = "\<lparr>ytick_now = 4 / 10, ytick_get_ticks = 400\<rparr>"
  let ?t2 = "\<lparr>ytick_now = 9 / 10, ytick_get_ticks = 900\<rparr>"
  have hy: "yori_state ?y = ''block'' \<and> yori_is_active ?y = Some True \<and> 0 < yori_current_health ?y
    \<and> \<not> yori_should_use_skill ?y \<and> yori_is_in_knockback ?y \<and> 0 < yori_knockback_duration ?y"
    "ytick_now ?t1 - yori_block_time ?y = yori_knockback_duration ?y / 2
       \<and> ytick_now ?t1 < yori_block_time ?y + yori_block_duration ?y"
    "ytick_now ?t2 - yori_block_time ?y \<ge> yori_knockback_duration ?y"
    by (simp_all add: start_block_animation_def example_boss_def Yori_init_def
          yori_set_velocity_x_def Let_def)
  have fy: "- of_int (yori_dir ?y) * (yori_knockback_start_velocity ?y * (1 / 2)) = (- 10 :: real)"
    by (simp add: start_block_animation_def example_boss_def Yori_init_def
          yori_set_velocity_x_def Let_def)
  have hp: "player_knockback_end_time ?p = Some 1000 \<and> \<not> player_is_dead ?p"
    "(500::int) < 1000 \<and> 0 < player_block_len ?p" "(1000::int) \<le> 1000"
    by (simp_all add: example_player_def Player_init_def Let_def)
  note t1 = knockback_decay [of ?y ?t1 "(Some example_player, None)" ?p 1000 500]
  note t2 = knockback_decay [of ?y ?t2 "(Some example_player, None)" ?p 1000 1000]
  have y1: "\<exists>y'. yori_update ?t1 (?y, (Some example_player, None)) = Some (y', (Some example_player, None))
         \<and> velocity_x (yori_rigid_body y') = - 10"
    using t1 hy(1) hy(2) unfolding fy [symmetric] by blast
  have y2: "\<exists>y'. yori_update ?t2 (?y, (Some example_player, None)) = Some (y', (Some example_player, None))
         \<and> velocity_x (yori_rigid_body y') = 0 \<and> \<not> yori_is_in_knockback y'"
    using t2 hy(1) hy(3) by blast
  have p1: "\<exists>p'. player_update_knockback 500 ?p = Some (Return p')
         \<and> player_blocking p' \<and> player_state p' = SStr ''block''
         \<and> \<not> is_grounded (player_rigid_body p')"
    using t1 hp(1) hp(2) by blast
  have p2: "\<exists>p'. player_update_knockback 1000 ?p = Some (Continue p')
         \<and> player_knockback_end_time p' = None \<and> player_state p' = SStr ''idle''
         \<and> velocity_x (player_rigid_body p') = 0"
    using t2 hp(1) hp(3) by blast
  show ?thesis using hy hp y1 y2 p1 p2 by blast
qed

end
